theory Spec2Isabelle
  imports Complex_Main
begin

section \<open>The localization plugin: one cycle of \<open>SLAMPlugin::process\<close>\<close>

text \<open>
  The plugin keeps a particle filter, an odometry model and a laser model, and on every
  call of \<open>process\<close> it drains its callback queue, applies a pending initial pose,
  resolves the laser mounting offset, reads the odometry transform, and then runs the
  motion update, the sensor update, the resampling and the publication of the mean pose.

  The classes \<open>ParticleFilter\<close>, \<open>OdomModel\<close>, \<open>LaserModel\<close> and \<open>Transform\<close>, and the
  libraries geolib, tf and ros, are not part of the two source files. Their operations
  are the fields of the record \<open>Collaborators\<close>; every call that \<open>process\<close> makes into
  them is written to a log kept in the state, so that "a stage runs" is an entry of
  that log. The arithmetic that \<open>process\<close> does itself, the corners of the seeding
  region in lines 118-123, is double arithmetic: each literal and each result is rounded
  to the nearest double. In the collaborators a double is a real number, with one extra
  value for a non-finite weight.
\<close>

subsection \<open>Geometry values (geolib, tf)\<close>

type_synonym Vec2 = "real \<times> real"
type_synonym Mat2 = "(real \<times> real) \<times> (real \<times> real)"
type_synonym Transform2 = "Mat2 \<times> Vec2"
type_synonym Vec3 = "real \<times> real \<times> real"
type_synonym Mat3 = "Vec3 \<times> Vec3 \<times> Vec3"
type_synonym Pose3D = "Mat3 \<times> Vec3"
type_synonym Quaternion = "real \<times> real \<times> real \<times> real"

text \<open>\<open>tf::StampedTransform\<close> as a lookup returns it: \<open>getBasis()\<close> and \<open>getOrigin()\<close>.\<close>

type_synonym StampedTransform = "Mat3 \<times> Vec3"

text \<open>
  Double arithmetic (IEEE 754 binary64, round to nearest, ties to even) on finite
  values: \<open>double_round v\<close> is \<open>v\<close> rounded to 53 significant bits, \<open>u\<close> being the unit in
  the last place of the binade of \<open>v\<close>. A literal such as \<open>0.3\<close> is \<open>double_round 0.3\<close>, and
  a difference or a sum of two doubles is the rounded exact result. The exponent is not
  bounded: the sums and differences of \<open>process\<close> add at most 0.3 to a finite double,
  which cannot overflow, and a result in the subnormal range is exact. Infinities and
  NaNs in a received pose are not modelled.
\<close>

definition round_even :: "real \<Rightarrow> int" where
  "round_even t =
     (let f = \<lfloor>t\<rfloor> in
      if t - of_int f < 1 / 2 then f
      else if 1 / 2 < t - of_int f then f + 1
      else if even f then f else f + 1)"

definition double_round :: "real \<Rightarrow> real" where
  "double_round v =
     (if v = 0 then 0
      else (let u = 2 powr (of_int \<lfloor>log 2 \<bar>v\<bar>\<rfloor> - 52)
            in u * of_int (round_even (v / u))))"

definition double_minus :: "real \<Rightarrow> real \<Rightarrow> real" where
  "double_minus a b = double_round (a - b)"

definition double_plus :: "real \<Rightarrow> real \<Rightarrow> real" where
  "double_plus a b = double_round (a + b)"

text \<open>\<open>geo::Vec2\<close>: difference and sum by components, in doubles.\<close>

definition vec2_minus :: "Vec2 \<Rightarrow> Vec2 \<Rightarrow> Vec2" where
  "vec2_minus a b = (double_minus (fst a) (fst b), double_minus (snd a) (snd b))"

definition vec2_plus :: "Vec2 \<Rightarrow> Vec2 \<Rightarrow> Vec2" where
  "vec2_plus a b = (double_plus (fst a) (fst b), double_plus (snd a) (snd b))"

text \<open>\<open>geo::Transform2::identity()\<close>.\<close>

definition identity2 :: Transform2 where
  "identity2 = (((1, 0), (0, 1)), (0, 0))"

text \<open>
  Lines 185-187 of \<open>process\<close>: the 2-D transform made of the upper left block and the
  first two translation components of a \<open>geo::Pose3D\<close>. Lines 142-146 take the same
  parts of the laser transform, and its third translation component as the height.
\<close>

fun to_2d :: "Pose3D \<Rightarrow> Transform2" where
  "to_2d (((xx, xy, xz), (yx, yy, yz), zrow), (tx, ty, tz)) = (((xx, xy), (yx, yy)), (tx, ty))"

fun height_of :: "Pose3D \<Rightarrow> real" where
  "height_of (R, (tx, ty, tz)) = tz"

text \<open>Lines 252-256 and 283-287: a 2-D transform placed in the plane \<open>z = 0\<close>.\<close>

fun to_3d :: "Transform2 \<Rightarrow> Pose3D" where
  "to_3d (((xx, xy), (yx, yy)), (tx, ty)) = (((xx, xy, 0), (yx, yy, 0), (0, 0, 1)), (tx, ty, 0))"

subsection \<open>Messages\<close>

record LaserScan =
  frame_id :: string
  stamp :: nat
  ranges :: "real list"

record PoseWithCovarianceStamped =
  position :: Vec3
  orientation :: Quaternion

datatype Callback =
    LaserCallback LaserScan
  | InitialPoseCallback PoseWithCovarianceStamped

datatype TransformException = TransformException string

subsection \<open>Particles\<close>

text \<open>
  Modelled from the spec: the classes \<open>Sample\<close> and \<open>Transform\<close> are not in the source
  files. A pose is a position and a heading, and \<open>matrix\<close> is the equivalent rotation and
  translation; a particle is a pose and a weight. A weight is a double: a real number,
  or \<open>NonFinite\<close> for an infinity or a NaN.
\<close>

record Pose2D =
  px :: real
  py :: real
  theta :: real

datatype Weight = Finite real | NonFinite

record Sample =
  pose :: Pose2D
  weight :: Weight

definition matrix :: "Pose2D \<Rightarrow> Transform2" where
  "matrix p = (((cos (theta p), - sin (theta p)), (sin (theta p), cos (theta p))), (px p, py p))"

subsection \<open>The log of calls and publications\<close>

record SentTransform =
  frame_id_ :: string
  child_frame_id_ :: string
  stamp_ :: nat
  transform :: Pose3D

text \<open>
  One entry for each call into the particle filter, the odometry model and the laser
  model, and for each publication. A stage's entry holds the particle set the stage was
  given.
\<close>

datatype Event =
    EvInitUniform Vec2 Vec2 real real real real
  | EvSetLaserOffset Transform2 real
  | EvUpdatePoses Transform2 "Sample list"
  | EvUpdateWeights LaserScan "Sample list"
  | EvResample nat "Sample list"
  | EvCalculateMeanPose "Sample list"
  | EvSendTransform SentTransform
  | EvPublishParticles string nat "Pose3D list"

datatype Error = DegenerateWeights

subsection \<open>Collaborators\<close>

text \<open>
  The operations \<open>process\<close> calls and does not define. \<open>getYaw\<close> is tf's; \<open>convert\<close>,
  \<open>inverse3\<close> and \<open>times3\<close> are geolib's conversion from a tf transform, \<open>Pose3D::inverse\<close>
  and the product of two poses. The remaining five belong to this repository:

  Modelled from the spec: \<open>ParticleFilter::initUniform\<close>, \<open>OdomModel::updatePoses\<close>,
  \<open>LaserModel::updateWeights\<close>, \<open>ParticleFilter::resample\<close> and
  \<open>ParticleFilter::calculateMeanPose\<close> are not in the source files. Seeding populates
  the set from the region alone, discarding the prior belief, so \<open>initUniform\<close> has no
  particle set among its arguments. The motion update and the resampling draw random
  numbers; they read them from the cycle's \<open>random\<close> stream. The sensor model reads the
  mounting offset it was handed. Resampling can fail with an error condition; a call
  written as a statement can only fail by throwing, so the error is an exception that
  leaves \<open>process\<close>, which has no handler around the call.
\<close>

record 'w Collaborators =
  getYaw :: "Quaternion \<Rightarrow> real"
  convert :: "StampedTransform \<Rightarrow> Pose3D"
  inverse3 :: "Pose3D \<Rightarrow> Pose3D"
  times3 :: "Pose3D \<Rightarrow> Pose3D \<Rightarrow> Pose3D"
  initUniform :: "Vec2 \<Rightarrow> Vec2 \<Rightarrow> real \<Rightarrow> real \<Rightarrow> real \<Rightarrow> real \<Rightarrow> Sample list"
  updatePoses :: "(nat \<Rightarrow> real) \<Rightarrow> Transform2 \<Rightarrow> real \<Rightarrow> Sample list \<Rightarrow> Sample list"
  updateWeights :: "(Transform2 \<times> real) option \<Rightarrow> 'w \<Rightarrow> LaserScan \<Rightarrow> Sample list \<Rightarrow> Sample list"
  resample :: "(nat \<Rightarrow> real) \<Rightarrow> nat \<Rightarrow> Sample list \<Rightarrow> Error + Sample list"
  calculateMeanPose :: "Sample list \<Rightarrow> Transform2"

subsection \<open>What one cycle receives from outside\<close>

text \<open>
  \<open>callbacks\<close> are the messages that \<open>cb_queue_.callAvailable()\<close> delivers, in order. The
  four tf fields answer the two \<open>waitForTransform\<close> and the two \<open>lookupTransform\<close> calls
  (target frame, source frame, time); a lookup that throws is \<open>Inl\<close>.
\<close>

record 'w CycleInput =
  callbacks :: "Callback list"
  wait_laser :: "string \<Rightarrow> string \<Rightarrow> nat \<Rightarrow> bool"
  lookup_laser :: "string \<Rightarrow> string \<Rightarrow> nat \<Rightarrow> TransformException + StampedTransform"
  wait_odom :: "string \<Rightarrow> string \<Rightarrow> nat \<Rightarrow> bool"
  lookup_odom :: "string \<Rightarrow> string \<Rightarrow> nat \<Rightarrow> TransformException + StampedTransform"
  world :: 'w
  random :: "nat \<Rightarrow> real"

subsection \<open>The plugin's members\<close>

text \<open>
  \<open>laser_offset\<close> is what \<open>laser_model_\<close> holds after \<open>setLaserOffset\<close>, \<open>particle_filter\<close>
  is \<open>particle_filter_.samples()\<close>, and \<open>trace\<close> is the log. The header
  \<open>slam_plugin.h\<close> declares the two message pointers, the two flags, \<open>previous_pose_\<close>
  and the frame ids; \<open>particle_filter_\<close>, \<open>laser_model_\<close>, \<open>odom_model_\<close> and
  \<open>num_particles_\<close> are not declared there and are taken from their use in \<open>process\<close>,
  the particle count as a natural number.
\<close>

record PluginState =
  laser_msg :: "LaserScan option"
  initial_pose_msg :: "PoseWithCovarianceStamped option"
  have_previous_pose :: bool
  previous_pose :: Pose3D
  laser_offset_initialized :: bool
  laser_offset :: "(Transform2 \<times> real) option"
  particle_filter :: "Sample list"
  num_particles :: nat
  map_frame_id :: string
  odom_frame_id :: string
  base_link_frame_id :: string
  trace :: "Event list"

subsection \<open>\<open>process\<close>, block by block\<close>

text \<open>Lines 366-376: the two callbacks store the message.\<close>

definition laserCallback :: "LaserScan \<Rightarrow> PluginState \<Rightarrow> PluginState" where
  "laserCallback msg s = s\<lparr>laser_msg := Some msg\<rparr>"

definition initialPoseCallback :: "PoseWithCovarianceStamped \<Rightarrow> PluginState \<Rightarrow> PluginState" where
  "initialPoseCallback msg s = s\<lparr>initial_pose_msg := Some msg\<rparr>"

fun callAvailable :: "Callback list \<Rightarrow> PluginState \<Rightarrow> PluginState" where
  "callAvailable [] s = s"
| "callAvailable (LaserCallback msg # cbs) s = callAvailable cbs (laserCallback msg s)"
| "callAvailable (InitialPoseCallback msg # cbs) s = callAvailable cbs (initialPoseCallback msg s)"

text \<open>Lines 114-124: a stored initial pose seeds the particle filter around it.\<close>

definition set_initial_pose :: "'w Collaborators \<Rightarrow> PluginState \<Rightarrow> PluginState" where
  "set_initial_pose M s =
     (case initial_pose_msg s of
        None \<Rightarrow> s
      | Some msg \<Rightarrow>
          (let p = (fst (position msg), fst (snd (position msg)));
               yaw = getYaw M (orientation msg);
               lo = vec2_minus p (double_round 0.3, double_round 0.3);
               hi = vec2_plus p (double_round 0.3, double_round 0.3);
               a_min = double_minus yaw (double_round 0.1);
               a_max = double_plus yaw (double_round 0.1)
           in s\<lparr>particle_filter :=
                   initUniform M lo hi (double_round 0.05) a_min a_max (double_round 0.05),
                 trace := trace s @
                   [EvInitUniform lo hi (double_round 0.05) a_min a_max (double_round 0.05)]\<rparr>))"

text \<open>Lines 110-124: both pointers are reset, the queue is drained, the pose is applied.\<close>

definition begin_cycle :: "'w Collaborators \<Rightarrow> 'w CycleInput \<Rightarrow> PluginState \<Rightarrow> PluginState" where
  "begin_cycle M inp s =
     set_initial_pose M
       (callAvailable (callbacks inp) (s\<lparr>laser_msg := None, initial_pose_msg := None\<rparr>))"

text \<open>
  Lines 129-157: the laser offset, looked up once. \<open>None\<close> is the \<open>return\<close> of line 134
  or of line 153.
\<close>

definition init_laser_offset :: "'w CycleInput \<Rightarrow> LaserScan \<Rightarrow> PluginState \<Rightarrow> PluginState option" where
  "init_laser_offset inp scan s =
     (if \<not> laser_offset_initialized s then
        (if \<not> wait_laser inp (base_link_frame_id s) (frame_id scan) (stamp scan) then None
         else
           (case lookup_laser inp (base_link_frame_id s) (frame_id scan) (stamp scan) of
              Inl e \<Rightarrow> None
            | Inr p_laser \<Rightarrow>
                (let offset = to_2d p_laser;
                     laser_height = height_of p_laser
                 in Some (s\<lparr>laser_offset := Some (offset, laser_height),
                            trace := trace s @ [EvSetLaserOffset offset laser_height],
                            laser_offset_initialized := True\<rparr>))))
      else Some s)"

text \<open>
  Lines 163-209: the odometry pose and the movement since the previous one. \<open>None\<close> is
  the \<open>return\<close> of line 166 or of line 204; the result holds the state,
  \<open>odom_to_base_link\<close> and \<open>movement\<close>.
\<close>

definition odom_delta ::
  "'w Collaborators \<Rightarrow> 'w CycleInput \<Rightarrow> LaserScan \<Rightarrow> PluginState
    \<Rightarrow> (PluginState \<times> Pose3D \<times> Transform2) option" where
  "odom_delta M inp scan s =
     (if \<not> wait_odom inp (odom_frame_id s) (base_link_frame_id s) (stamp scan) then None
      else
        (case lookup_odom inp (odom_frame_id s) (base_link_frame_id s) (stamp scan) of
           Inr odom_to_base_link_tf \<Rightarrow>
             (let odom_to_base_link = convert M odom_to_base_link_tf;
                  movement =
                    (if have_previous_pose s
                     then to_2d (times3 M (inverse3 M (previous_pose s)) odom_to_base_link)
                     else identity2)
              in Some (s\<lparr>previous_pose := odom_to_base_link, have_previous_pose := True\<rparr>,
                       odom_to_base_link, movement))
         | Inl e \<Rightarrow>
             (if \<not> have_previous_pose s then None
              else Some (s, previous_pose s, identity2))))"

text \<open>
  Lines 215-295: the empty check, the three stages and the publication. A failing
  \<open>resample\<close> ends the call at line 242, with the particle set as the sensor update
  left it.
\<close>

definition update ::
  "'w Collaborators \<Rightarrow> 'w CycleInput \<Rightarrow> LaserScan \<Rightarrow> Pose3D \<Rightarrow> Transform2 \<Rightarrow> PluginState
    \<Rightarrow> (Error + unit) \<times> PluginState" where
  "update M inp scan odom_to_base_link movement s =
     (if particle_filter s = [] then (Inr (), s)
      else
        (let moved = updatePoses M (random inp) movement 0 (particle_filter s);
             weighted = updateWeights M (laser_offset s) (world inp) scan moved;
             stages = [EvUpdatePoses movement (particle_filter s),
                       EvUpdateWeights scan moved,
                       EvResample (num_particles s) weighted]
         in
           (case resample M (random inp) (num_particles s) weighted of
              Inl e \<Rightarrow> (Inl e, s\<lparr>particle_filter := weighted, trace := trace s @ stages\<rparr>)
            | Inr resampled \<Rightarrow>
                (let mean_pose = calculateMeanPose M resampled;
                     map_to_base_link = to_3d mean_pose;
                     map_to_odom = times3 M map_to_base_link (inverse3 M odom_to_base_link);
                     map_to_odom_tf = \<lparr>frame_id_ = map_frame_id s,
                                       child_frame_id_ = odom_frame_id s,
                                       stamp_ = stamp scan,
                                       transform = map_to_odom\<rparr>;
                     particles = map (\<lambda>sm. to_3d (matrix (pose sm))) resampled
                 in (Inr (),
                     s\<lparr>particle_filter := resampled,
                       trace := trace s @ stages @
                         [EvCalculateMeanPose resampled,
                          EvSendTransform map_to_odom_tf,
                          EvPublishParticles ''/map'' (stamp scan) particles]\<rparr>)))))"

text \<open>Lines 106-362. The visualization block is dead code (\<open>visualize = false\<close>).\<close>

definition process ::
  "'w Collaborators \<Rightarrow> 'w CycleInput \<Rightarrow> PluginState \<Rightarrow> (Error + unit) \<times> PluginState" where
  "process M inp s =
     (let s0 = begin_cycle M inp s in
      (case laser_msg s0 of
         None \<Rightarrow> (Inr (), s0)
       | Some scan \<Rightarrow>
           (case init_laser_offset inp scan s0 of
              None \<Rightarrow> (Inr (), s0)
            | Some s1 \<Rightarrow>
                (case odom_delta M inp scan s1 of
                   None \<Rightarrow> (Inr (), s1)
                 | Some (s2, odom_to_base_link, movement) \<Rightarrow>
                     update M inp scan odom_to_base_link movement s2))))"

text \<open>The plugin over several cycles: the state of one call is the next call's state.\<close>

fun run :: "'w Collaborators \<Rightarrow> 'w CycleInput list \<Rightarrow> PluginState \<Rightarrow> PluginState" where
  "run M [] s = s"
| "run M (inp # inps) s = run M inps (snd (process M inp s))"

subsection \<open>Vocabulary for the statements\<close>

text \<open>The last laser scan and the last initial pose among the drained callbacks.\<close>

fun received_laser :: "Callback list \<Rightarrow> LaserScan option" where
  "received_laser [] = None"
| "received_laser (LaserCallback msg # cbs) =
     (case received_laser cbs of None \<Rightarrow> Some msg | Some later \<Rightarrow> Some later)"
| "received_laser (InitialPoseCallback msg # cbs) = received_laser cbs"

fun received_initial_pose :: "Callback list \<Rightarrow> PoseWithCovarianceStamped option" where
  "received_initial_pose [] = None"
| "received_initial_pose (InitialPoseCallback msg # cbs) =
     (case received_initial_pose cbs of None \<Rightarrow> Some msg | Some later \<Rightarrow> Some later)"
| "received_initial_pose (LaserCallback msg # cbs) = received_initial_pose cbs"

fun is_initial_pose :: "Callback \<Rightarrow> bool" where
  "is_initial_pose (InitialPoseCallback msg) = True"
| "is_initial_pose (LaserCallback msg) = False"

text \<open>Kinds of log entries: seeding, calibration, the three stages, the pose estimate.\<close>

fun is_seed :: "Event \<Rightarrow> bool" where
  "is_seed (EvInitUniform lo hi ts a0 a1 as) = True"
| "is_seed e = False"

fun is_calibration :: "Event \<Rightarrow> bool" where
  "is_calibration (EvSetLaserOffset off h) = True"
| "is_calibration e = False"

fun is_stage :: "Event \<Rightarrow> bool" where
  "is_stage (EvUpdatePoses mv ps) = True"
| "is_stage (EvUpdateWeights scan ps) = True"
| "is_stage (EvResample n ps) = True"
| "is_stage e = False"

fun is_estimate :: "Event \<Rightarrow> bool" where
  "is_estimate (EvCalculateMeanPose ps) = True"
| "is_estimate (EvSendTransform t) = True"
| "is_estimate (EvPublishParticles f st ps) = True"
| "is_estimate e = False"

text \<open>The set that an initial pose message seeds, and the log entry of that seeding.\<close>

definition seeded :: "'w Collaborators \<Rightarrow> PoseWithCovarianceStamped \<Rightarrow> Sample list" where
  "seeded M msg =
     (let x = fst (position msg); y = fst (snd (position msg)); yaw = getYaw M (orientation msg)
      in initUniform M
           (double_minus x (double_round 0.3), double_minus y (double_round 0.3))
           (double_plus x (double_round 0.3), double_plus y (double_round 0.3))
           (double_round 0.05)
           (double_minus yaw (double_round 0.1)) (double_plus yaw (double_round 0.1))
           (double_round 0.05))"

definition seed_event :: "'w Collaborators \<Rightarrow> PoseWithCovarianceStamped \<Rightarrow> Event" where
  "seed_event M msg =
     (let x = fst (position msg); y = fst (snd (position msg)); yaw = getYaw M (orientation msg)
      in EvInitUniform
           (double_minus x (double_round 0.3), double_minus y (double_round 0.3))
           (double_plus x (double_round 0.3), double_plus y (double_round 0.3))
           (double_round 0.05)
           (double_minus yaw (double_round 0.1)) (double_plus yaw (double_round 0.1))
           (double_round 0.05))"

text \<open>
  Lines 126-209 as one function: the scan, the state, \<open>odom_to_base_link\<close> and
  \<open>movement\<close> with which line 215 is reached, or \<open>None\<close> when the cycle returns before.
\<close>

definition checks_passed ::
  "'w Collaborators \<Rightarrow> 'w CycleInput \<Rightarrow> PluginState
    \<Rightarrow> (LaserScan \<times> PluginState \<times> Pose3D \<times> Transform2) option" where
  "checks_passed M inp s =
     (case received_laser (callbacks inp) of
        None \<Rightarrow> None
      | Some scan \<Rightarrow>
          (case init_laser_offset inp scan (begin_cycle M inp s) of
             None \<Rightarrow> None
           | Some s1 \<Rightarrow>
               (case odom_delta M inp scan s1 of
                  None \<Rightarrow> None
                | Some (s2, odom_to_base_link, movement) \<Rightarrow>
                    Some (scan, s2, odom_to_base_link, movement))))"

text \<open>
  The answer of tf to the calibration lookup of a cycle (lines 131 and 140), when the
  cycle has a laser scan: \<open>None\<close> when there is no scan, the wait fails or the lookup
  throws. Of the state it reads only the base link frame.
\<close>

definition calibration_lookup :: "'w CycleInput \<Rightarrow> PluginState \<Rightarrow> StampedTransform option" where
  "calibration_lookup inp s =
     (case received_laser (callbacks inp) of
        None \<Rightarrow> None
      | Some scan \<Rightarrow>
          (if wait_laser inp (base_link_frame_id s) (frame_id scan) (stamp scan)
           then (case lookup_laser inp (base_link_frame_id s) (frame_id scan) (stamp scan) of
                   Inl e \<Rightarrow> None
                 | Inr p_laser \<Rightarrow> Some p_laser)
           else None))"

text \<open>
  The answer of tf to the odometry lookup of a cycle (line 176), when the cycle gets
  there: a laser scan, a resolved calibration and a successful wait. \<open>None\<close> otherwise,
  also when the lookup throws.
\<close>

definition odometry_lookup :: "'w CycleInput \<Rightarrow> PluginState \<Rightarrow> StampedTransform option" where
  "odometry_lookup inp s =
     (case received_laser (callbacks inp) of
        None \<Rightarrow> None
      | Some scan \<Rightarrow>
          (case init_laser_offset inp scan s of
             None \<Rightarrow> None
           | Some s1 \<Rightarrow>
               (if wait_odom inp (odom_frame_id s) (base_link_frame_id s) (stamp scan)
                then (case lookup_odom inp (odom_frame_id s) (base_link_frame_id s) (stamp scan) of
                        Inl e \<Rightarrow> None
                      | Inr odom_to_base_link_tf \<Rightarrow> Some odom_to_base_link_tf)
                else None)))"

section \<open>The particle filter operations of the spec\<close>

subsection \<open>Weights\<close>

text \<open>
  The sum of \<open>weight * f pose\<close> over a particle set; \<open>None\<close> when a weight is non-finite,
  as the sum is non-finite then. The total weight is the sum with \<open>f = 1\<close>.
\<close>

primrec weighted_sum :: "(Pose2D \<Rightarrow> real) \<Rightarrow> Sample list \<Rightarrow> real option" where
  "weighted_sum f [] = Some 0"
| "weighted_sum f (sm # sms) =
     (case weight sm of
        NonFinite \<Rightarrow> None
      | Finite a \<Rightarrow>
          (case weighted_sum f sms of None \<Rightarrow> None | Some b \<Rightarrow> Some (a * f (pose sm) + b)))"

definition total_weight :: "Sample list \<Rightarrow> real option" where
  "total_weight sms = weighted_sum (\<lambda>p. 1) sms"

subsection \<open>Resampling\<close>

text \<open>
  Modelled from the spec: \<open>ParticleFilter::resample\<close> is not in the source files.
  Section 7: when the sum of weights is zero or non-finite, resampling fails with a
  distinct error condition. Section 4.3: otherwise the weights are normalized, one
  random offset in \<open>[0, 1/targetCount)\<close> is drawn, the cumulative weight distribution is
  stepped through at intervals of \<open>1/targetCount\<close>, \<open>targetCount\<close> particles are selected
  by value, and each receives the weight \<open>1/targetCount\<close>. The draw \<open>rnd 0\<close> is taken
  from \<open>[0, 1)\<close>.
\<close>

fun pick :: "real \<Rightarrow> real \<Rightarrow> real \<Rightarrow> Sample list \<Rightarrow> Sample option" where
  "pick u W acc [] = None"
| "pick u W acc (sm # sms) =
     (case weight sm of
        NonFinite \<Rightarrow> None
      | Finite a \<Rightarrow> (if u < acc + a / W then Some sm else pick u W (acc + a / W) sms))"

definition select :: "real \<Rightarrow> real \<Rightarrow> Sample list \<Rightarrow> Sample" where
  "select u W sms = (case pick u W 0 sms of Some sm \<Rightarrow> sm | None \<Rightarrow> last sms)"

definition resample_spec :: "(nat \<Rightarrow> real) \<Rightarrow> nat \<Rightarrow> Sample list \<Rightarrow> Error + Sample list" where
  "resample_spec rnd targetCount sms =
     (case total_weight sms of
        None \<Rightarrow> Inl DegenerateWeights
      | Some W \<Rightarrow>
          (if W = 0 then Inl DegenerateWeights
           else Inr (map (\<lambda>k. (select (rnd 0 / real targetCount + real k / real targetCount) W sms)
                                \<lparr>weight := Finite (1 / real targetCount)\<rparr>)
                         [0..<targetCount])))"

subsection \<open>Mean pose\<close>

text \<open>
  Modelled from the spec: \<open>ParticleFilter::calculateMeanPose\<close> is not in the source
  files. Section 4.4: the translation is the weight-normalized sum of the particle
  translations, the heading is the angle of the weight-normalized sum of the unit
  vectors \<open>(cos, sin)\<close> of the particle headings. Section 7: on an empty set there is no
  estimate. The spec gives no value for a total weight that is zero or non-finite, where
  the normalization divides by zero or is non-finite; the model has no estimate there.

  \<open>angle x y\<close> is the polar angle of the vector \<open>(x, y)\<close>, in \<open>(-pi, pi]\<close>, and 0 for the
  zero vector.
\<close>

definition angle :: "real \<Rightarrow> real \<Rightarrow> real" where
  "angle x y =
     (if 0 < x then arctan (y / x)
      else if x < 0 then (if 0 \<le> y then arctan (y / x) + pi else arctan (y / x) - pi)
      else if 0 < y then pi / 2
      else if y < 0 then - (pi / 2)
      else 0)"

definition meanPose :: "Sample list \<Rightarrow> Pose2D option" where
  "meanPose sms =
     (if sms = [] then None
      else
        (case total_weight sms of
           None \<Rightarrow> None
         | Some W \<Rightarrow>
             (if W = 0 then None
              else
                (case (weighted_sum px sms, weighted_sum py sms,
                       weighted_sum (\<lambda>p. cos (theta p)) sms,
                       weighted_sum (\<lambda>p. sin (theta p)) sms) of
                   (Some X, Some Y, Some C, Some S) \<Rightarrow>
                     Some \<lparr>px = X / W, py = Y / W, theta = angle (C / W) (S / W)\<rparr>
                 | _ \<Rightarrow> None))))"

section \<open>A concrete plugin for evaluation\<close>

text \<open>
  Collaborators, a state and inputs on which the definitions above evaluate: poses are
  composed and inverted as translations, seeding gives one particle at the lower and
  one at the upper corner of the region, the motion and sensor updates leave the set as
  it is, and resampling is the resampler of the spec.
\<close>

definition sample_at :: "real \<Rightarrow> real \<Rightarrow> real \<Rightarrow> real \<Rightarrow> Sample" where
  "sample_at x y a w = \<lparr>pose = \<lparr>px = x, py = y, theta = a\<rparr>, weight = Finite w\<rparr>"

definition test_collaborators :: "unit Collaborators" where
  "test_collaborators =
     \<lparr>getYaw = (\<lambda>q. 0),
      convert = (\<lambda>t. t),
      inverse3 = (\<lambda>(R, (x, y, z)). (R, (- x, - y, - z))),
      times3 = (\<lambda>(R1, (x1, y1, z1)) (R2, (x2, y2, z2)). (R2, (x1 + x2, y1 + y2, z1 + z2))),
      initUniform = (\<lambda>lo hi t_step a_min a_max a_step.
         [sample_at (fst lo) (snd lo) a_min 1, sample_at (fst hi) (snd hi) a_max 1]),
      updatePoses = (\<lambda>rnd movement a sms. sms),
      updateWeights = (\<lambda>off w scan sms. sms),
      resample = resample_spec,
      calculateMeanPose = (\<lambda>sms. identity2)\<rparr>"

definition test_state :: PluginState where
  "test_state =
     \<lparr>laser_msg = None, initial_pose_msg = None, have_previous_pose = False,
      previous_pose = to_3d identity2, laser_offset_initialized = False, laser_offset = None,
      particle_filter = [], num_particles = 1,
      map_frame_id = ''map'', odom_frame_id = ''odom'', base_link_frame_id = ''base_link'',
      trace = []\<rparr>"

definition test_scan :: LaserScan where
  "test_scan = \<lparr>frame_id = ''laser'', stamp = 7, ranges = [1, 2]\<rparr>"

definition test_pose_msg :: PoseWithCovarianceStamped where
  "test_pose_msg = \<lparr>position = (1, 2, 0), orientation = (0, 0, 0, 1)\<rparr>"

definition test_tf :: StampedTransform where
  "test_tf = (((1, 0, 0), (0, 1, 0), (0, 0, 1)), (3, 4, 5))"

text \<open>A cycle in which tf answers every call, with the given callbacks.\<close>

definition test_input :: "Callback list \<Rightarrow> unit CycleInput" where
  "test_input cbs =
     \<lparr>callbacks = cbs,
      wait_laser = (\<lambda>target source time. True),
      lookup_laser = (\<lambda>target source time. Inr test_tf),
      wait_odom = (\<lambda>target source time. True),
      lookup_odom = (\<lambda>target source time. Inr test_tf),
      world = (),
      random = (\<lambda>i. 0)\<rparr>"

definition older_pose_msg :: PoseWithCovarianceStamped where
  "older_pose_msg = \<lparr>position = (5, 5, 0), orientation = (0, 0, 0, 1)\<rparr>"

text \<open>A pose far from the origin; \<open>10 ^ 16\<close> is a double, between \<open>2 ^ 53\<close> and \<open>2 ^ 54\<close>.\<close>

definition far_pose_msg :: PoseWithCovarianceStamped where
  "far_pose_msg = \<lparr>position = (10 ^ 16, 0, 0), orientation = (0, 0, 0, 1)\<rparr>"

text \<open>A state after a first good cycle: calibrated, with an odometry pose and one particle.\<close>

definition tracking_state :: PluginState where
  "tracking_state =
     test_state\<lparr>have_previous_pose := True, previous_pose := test_tf,
                laser_offset_initialized := True, laser_offset := Some (identity2, 0),
                particle_filter := [sample_at 0 0 0 1]\<rparr>"

text \<open>Cycles in which tf fails or answers differently.\<close>

definition test_input_odom_throws :: "Callback list \<Rightarrow> unit CycleInput" where
  "test_input_odom_throws cbs =
     (test_input cbs)\<lparr>lookup_odom := (\<lambda>target source time. Inl (TransformException ''extrapolation''))\<rparr>"

definition test_input_odom_timeout :: "Callback list \<Rightarrow> unit CycleInput" where
  "test_input_odom_timeout cbs = (test_input cbs)\<lparr>wait_odom := (\<lambda>target source time. False)\<rparr>"

definition test_tf2 :: StampedTransform where
  "test_tf2 = (((1, 0, 0), (0, 1, 0), (0, 0, 1)), (4, 6, 5))"

definition test_input_next :: "Callback list \<Rightarrow> unit CycleInput" where
  "test_input_next cbs = (test_input cbs)\<lparr>lookup_odom := (\<lambda>target source time. Inr test_tf2)\<rparr>"

definition test_input_laser_timeout :: "Callback list \<Rightarrow> unit CycleInput" where
  "test_input_laser_timeout cbs = (test_input cbs)\<lparr>wait_laser := (\<lambda>target source time. False)\<rparr>"

definition test_input_laser_moved :: "Callback list \<Rightarrow> unit CycleInput" where
  "test_input_laser_moved cbs = (test_input cbs)\<lparr>lookup_laser := (\<lambda>target source time. Inr test_tf2)\<rparr>"

section \<open>Properties of the blocks\<close>

subsection \<open>Double arithmetic\<close>

lemma round_even_error: "\<bar>of_int (round_even t) - t\<bar> \<le> 1 / 2"
proof -
  have "of_int \<lfloor>t\<rfloor> \<le> t" "t < of_int \<lfloor>t\<rfloor> + 1" by linarith+
  then show ?thesis by (auto simp: round_even_def Let_def)
qed

lemma round_even_below:
  assumes "of_int k - 1 / 2 < t" and "t < of_int k"
  shows "round_even t = k"
proof -
  have f: "\<lfloor>t\<rfloor> = k - 1" using assms by (intro floor_unique) simp_all
  have "1 / 2 < t - of_int (k - 1)" using assms by simp
  then show ?thesis by (simp add: round_even_def f)
qed

lemma round_even_above:
  assumes "of_int k \<le> t" and "t < of_int k + 1 / 2"
  shows "round_even t = k"
proof -
  have f: "\<lfloor>t\<rfloor> = k" using assms by (intro floor_unique) simp_all
  have "t - of_int k < 1 / 2" using assms by simp
  then show ?thesis by (simp add: round_even_def f)
qed

lemma double_round_error: "\<bar>double_round v - v\<bar> \<le> \<bar>v\<bar> / 2 ^ 53"
proof (cases "v = 0")
  case True
  then show ?thesis by (simp add: double_round_def)
next
  case False
  define e where "e = \<lfloor>log 2 \<bar>v\<bar>\<rfloor>"
  define u :: real where "u = 2 powr (of_int e - 52)"
  have upos: "0 < u" by (simp add: u_def)
  have "of_int e \<le> log 2 \<bar>v\<bar>" by (simp add: e_def)
  then have "2 powr (of_int e) \<le> 2 powr (log 2 \<bar>v\<bar>)" by simp
  then have le: "2 powr (of_int e) \<le> \<bar>v\<bar>" using False by simp
  have u: "u = 2 powr (of_int e) / 2 ^ 52"
    by (simp add: u_def powr_diff)
  have "double_round v - v = u * (of_int (round_even (v / u)) - v / u)"
    using False upos by (simp add: double_round_def e_def u_def Let_def algebra_simps)
  then have "\<bar>double_round v - v\<bar> = u * \<bar>of_int (round_even (v / u)) - v / u\<bar>"
    using upos by (simp add: abs_mult)
  also have "\<dots> \<le> u * (1 / 2)"
    using upos round_even_error [of "v / u"] by (intro mult_left_mono) simp_all
  also have "\<dots> = 2 powr (of_int e) / 2 ^ 53" by (simp add: u)
  also have "\<dots> \<le> \<bar>v\<bar> / 2 ^ 53" using le by (simp add: divide_right_mono)
  finally show ?thesis .
qed

lemma double_round_binade_53:
  assumes "2 ^ 53 \<le> v" and "v < 2 ^ 54"
  shows "double_round v = 2 * of_int (round_even (v / 2))"
proof -
  have pos: "0 < v" using assms(1) by (smt (verit) zero_less_power)
  have "\<lfloor>log 2 v\<rfloor> = 53"
    using assms pos by (subst floor_log_eq_powr_iff) simp_all
  then show ?thesis using pos by (simp add: double_round_def)
qed

lemma double_literal_bounds:
  "0 < double_round (3 / 10)" "double_round (3 / 10) < 1"
proof -
  have "\<bar>double_round (3 / 10) - 3 / 10\<bar> \<le> \<bar>3 / 10\<bar> / 2 ^ 53"
    by (rule double_round_error)
  then have "\<bar>double_round (3 / 10) - 3 / 10\<bar> \<le> 1 / 10" by simp
  then show "0 < double_round (3 / 10)" "double_round (3 / 10) < 1" by linarith+
qed

lemma double_minus_far: "double_minus (10 ^ 16) (double_round (3 / 10)) = 10 ^ 16"
proof -
  let ?c = "double_round (3 / 10)"
  have b: "(2::real) ^ 53 \<le> 10 ^ 16 - ?c" "10 ^ 16 - ?c < (2::real) ^ 54"
    using double_literal_bounds by simp_all
  have r: "round_even ((10 ^ 16 - ?c) / 2) = 5 * 10 ^ 15"
    using double_literal_bounds by (intro round_even_below) simp_all
  have "double_round (10 ^ 16 - ?c) = 2 * of_int (round_even ((10 ^ 16 - ?c) / 2))"
    by (rule double_round_binade_53 [OF b])
  also have "\<dots> = 2 * of_int (5 * 10 ^ 15)" by (simp only: r)
  also have "\<dots> = 10 ^ 16" by simp
  finally show ?thesis by (simp only: double_minus_def)
qed

lemma double_plus_far: "double_plus (10 ^ 16) (double_round (3 / 10)) = 10 ^ 16"
proof -
  let ?c = "double_round (3 / 10)"
  have b: "(2::real) ^ 53 \<le> 10 ^ 16 + ?c" "10 ^ 16 + ?c < (2::real) ^ 54"
    using double_literal_bounds by simp_all
  have r: "round_even ((10 ^ 16 + ?c) / 2) = 5 * 10 ^ 15"
    using double_literal_bounds by (intro round_even_above) simp_all
  have "double_round (10 ^ 16 + ?c) = 2 * of_int (round_even ((10 ^ 16 + ?c) / 2))"
    by (rule double_round_binade_53 [OF b])
  also have "\<dots> = 2 * of_int (5 * 10 ^ 15)" by (simp only: r)
  also have "\<dots> = 10 ^ 16" by simp
  finally show ?thesis by (simp only: double_plus_def)
qed

lemma double_corner_error:
  assumes "0 \<le> c" and "c \<le> 3 / 10"
  shows "\<bar>double_minus x (double_round c) - (x - c)\<bar> \<le> (\<bar>x\<bar> + 1) / 2 ^ 53"
    and "\<bar>double_plus x (double_round c) - (x + c)\<bar> \<le> (\<bar>x\<bar> + 1) / 2 ^ 53"
proof -
  define k :: real where "k = 2 ^ 53"
  define d where "d = double_round c"
  have k: "1 \<le> k" by (simp add: k_def)
  have "\<bar>d - c\<bar> \<le> \<bar>c\<bar> / k" unfolding d_def k_def by (rule double_round_error)
  then have dc: "\<bar>d - c\<bar> \<le> c / k" using assms(1) by simp
  have "c * 1 \<le> c * k" using k assms(1) by (intro mult_left_mono) simp_all
  then have "c / k \<le> c" using k by (simp add: field_simps)
  then have dabs: "\<bar>d\<bar> \<le> 2 * c" using dc by linarith
  have m: "\<bar>double_round (x - d) - (x - d)\<bar> \<le> \<bar>x - d\<bar> / k"
    and p: "\<bar>double_round (x + d) - (x + d)\<bar> \<le> \<bar>x + d\<bar> / k"
    unfolding k_def by (rule double_round_error)+
  have "\<bar>x - d\<bar> \<le> \<bar>x\<bar> + 2 * c" "\<bar>x + d\<bar> \<le> \<bar>x\<bar> + 2 * c" using dabs by linarith+
  then have "\<bar>x - d\<bar> / k \<le> (\<bar>x\<bar> + 2 * c) / k" "\<bar>x + d\<bar> / k \<le> (\<bar>x\<bar> + 2 * c) / k"
    using k by (simp_all add: divide_right_mono)
  with m p have m': "\<bar>double_round (x - d) - (x - d)\<bar> \<le> (\<bar>x\<bar> + 2 * c) / k"
    and p': "\<bar>double_round (x + d) - (x + d)\<bar> \<le> (\<bar>x\<bar> + 2 * c) / k" by linarith+
  have s: "(\<bar>x\<bar> + 2 * c) / k + c / k = (\<bar>x\<bar> + 3 * c) / k"
    by (simp add: add_divide_distrib)
  have "(\<bar>x\<bar> + 3 * c) / k \<le> (\<bar>x\<bar> + 1) / k"
    using k assms(2) by (intro divide_right_mono) simp_all
  with s have b: "(\<bar>x\<bar> + 2 * c) / k + c / k \<le> (\<bar>x\<bar> + 1) / k" by simp
  show "\<bar>double_minus x (double_round c) - (x - c)\<bar> \<le> (\<bar>x\<bar> + 1) / 2 ^ 53"
    using m' dc b unfolding double_minus_def d_def [symmetric] k_def [symmetric] by linarith
  show "\<bar>double_plus x (double_round c) - (x + c)\<bar> \<le> (\<bar>x\<bar> + 1) / 2 ^ 53"
    using p' dc b unfolding double_plus_def d_def [symmetric] k_def [symmetric] by linarith
qed

subsection \<open>The callback queue\<close>

lemma callAvailable_laser_msg:
  "laser_msg (callAvailable cbs s) =
     (case received_laser cbs of None \<Rightarrow> laser_msg s | Some msg \<Rightarrow> Some msg)"
  by (induction cbs s rule: callAvailable.induct)
     (simp_all add: laserCallback_def initialPoseCallback_def split: option.splits)

lemma callAvailable_initial_pose_msg:
  "initial_pose_msg (callAvailable cbs s) =
     (case received_initial_pose cbs of None \<Rightarrow> initial_pose_msg s | Some msg \<Rightarrow> Some msg)"
  by (induction cbs s rule: callAvailable.induct)
     (simp_all add: laserCallback_def initialPoseCallback_def split: option.splits)

lemma callAvailable_only_pointers:
  "callAvailable cbs s =
     s\<lparr>laser_msg := laser_msg (callAvailable cbs s),
       initial_pose_msg := initial_pose_msg (callAvailable cbs s)\<rparr>"
  by (induction cbs s rule: callAvailable.induct)
     (simp_all add: laserCallback_def initialPoseCallback_def)

lemma callAvailable_drained:
  "callAvailable cbs (s\<lparr>laser_msg := None, initial_pose_msg := None\<rparr>) =
     s\<lparr>laser_msg := received_laser cbs, initial_pose_msg := received_initial_pose cbs\<rparr>"
  by (subst callAvailable_only_pointers)
     (simp add: callAvailable_laser_msg callAvailable_initial_pose_msg split: option.splits)

lemma received_initial_pose_append:
  "received_initial_pose (xs @ ys) =
     (case received_initial_pose ys of None \<Rightarrow> received_initial_pose xs | Some msg \<Rightarrow> Some msg)"
  by (induction xs rule: received_initial_pose.induct) (simp_all split: option.splits)

lemma received_initial_pose_none:
  "(\<forall>c \<in> set cbs. \<not> is_initial_pose c) \<Longrightarrow> received_initial_pose cbs = None"
  by (induction cbs rule: received_initial_pose.induct) simp_all

lemma received_initial_pose_last:
  assumes "\<forall>c \<in> set after. \<not> is_initial_pose c"
  shows "received_initial_pose (before @ InitialPoseCallback msg # after) = Some msg"
  using received_initial_pose_none [OF assms] by (simp add: received_initial_pose_append)

subsection \<open>The start of the cycle\<close>

lemma begin_cycle_eq:
  "begin_cycle M inp s =
     (case received_initial_pose (callbacks inp) of
        None \<Rightarrow> s\<lparr>laser_msg := received_laser (callbacks inp), initial_pose_msg := None\<rparr>
      | Some msg \<Rightarrow>
          s\<lparr>laser_msg := received_laser (callbacks inp), initial_pose_msg := Some msg,
            particle_filter := seeded M msg, trace := trace s @ [seed_event M msg]\<rparr>)"
  by (simp add: begin_cycle_def callAvailable_drained set_initial_pose_def seeded_def
        seed_event_def vec2_minus_def vec2_plus_def Let_def split: option.splits)

lemma begin_cycle_fields [simp]:
  "laser_msg (begin_cycle M inp s) = received_laser (callbacks inp)"
  "initial_pose_msg (begin_cycle M inp s) = received_initial_pose (callbacks inp)"
  "have_previous_pose (begin_cycle M inp s) = have_previous_pose s"
  "previous_pose (begin_cycle M inp s) = previous_pose s"
  "laser_offset_initialized (begin_cycle M inp s) = laser_offset_initialized s"
  "laser_offset (begin_cycle M inp s) = laser_offset s"
  "num_particles (begin_cycle M inp s) = num_particles s"
  "map_frame_id (begin_cycle M inp s) = map_frame_id s"
  "odom_frame_id (begin_cycle M inp s) = odom_frame_id s"
  "base_link_frame_id (begin_cycle M inp s) = base_link_frame_id s"
  by (simp_all add: begin_cycle_eq split: option.splits)

lemma begin_cycle_particle_filter:
  "particle_filter (begin_cycle M inp s) =
     (case received_initial_pose (callbacks inp) of
        None \<Rightarrow> particle_filter s | Some msg \<Rightarrow> seeded M msg)"
  by (simp add: begin_cycle_eq split: option.splits)

lemma begin_cycle_trace:
  "trace (begin_cycle M inp s) =
     (case received_initial_pose (callbacks inp) of
        None \<Rightarrow> trace s | Some msg \<Rightarrow> trace s @ [seed_event M msg])"
  by (simp add: begin_cycle_eq split: option.splits)

lemma is_seed_seed_event [simp]: "is_seed (seed_event M msg)"
  by (simp add: seed_event_def Let_def)

lemma seed_event_kinds [simp]:
  "\<not> is_stage (seed_event M msg)"
  "\<not> is_estimate (seed_event M msg)"
  "\<not> is_calibration (seed_event M msg)"
  by (simp_all add: seed_event_def Let_def)

subsection \<open>Calibration and odometry\<close>

lemma init_laser_offset_Some:
  assumes "init_laser_offset inp scan s = Some s1"
  shows "s1 = s \<and> laser_offset_initialized s \<or>
         (\<exists>p_laser. \<not> laser_offset_initialized s \<and>
            wait_laser inp (base_link_frame_id s) (frame_id scan) (stamp scan) \<and>
            lookup_laser inp (base_link_frame_id s) (frame_id scan) (stamp scan) = Inr p_laser \<and>
            s1 = s\<lparr>laser_offset := Some (to_2d p_laser, height_of p_laser),
                   trace := trace s @ [EvSetLaserOffset (to_2d p_laser) (height_of p_laser)],
                   laser_offset_initialized := True\<rparr>)"
  using assms by (auto simp: init_laser_offset_def Let_def split: if_splits sum.splits)

lemma init_laser_offset_fields:
  assumes "init_laser_offset inp scan s = Some s1"
  shows "laser_msg s1 = laser_msg s" "initial_pose_msg s1 = initial_pose_msg s"
    "have_previous_pose s1 = have_previous_pose s" "previous_pose s1 = previous_pose s"
    "particle_filter s1 = particle_filter s" "num_particles s1 = num_particles s"
    "map_frame_id s1 = map_frame_id s" "odom_frame_id s1 = odom_frame_id s"
    "base_link_frame_id s1 = base_link_frame_id s" "laser_offset_initialized s1"
    "filter is_stage (trace s1) = filter is_stage (trace s)"
    "filter is_estimate (trace s1) = filter is_estimate (trace s)"
    "filter is_seed (trace s1) = filter is_seed (trace s)"
  using init_laser_offset_Some [OF assms] by auto

lemma odom_delta_Some:
  assumes "odom_delta M inp scan s = Some (s2, odom_to_base_link, movement)"
  shows "particle_filter s2 = particle_filter s" "num_particles s2 = num_particles s"
    "laser_msg s2 = laser_msg s" "initial_pose_msg s2 = initial_pose_msg s"
    "laser_offset s2 = laser_offset s" "laser_offset_initialized s2 = laser_offset_initialized s"
    "map_frame_id s2 = map_frame_id s" "odom_frame_id s2 = odom_frame_id s"
    "base_link_frame_id s2 = base_link_frame_id s" "trace s2 = trace s"
    "have_previous_pose s2"
  using assms by (auto simp: odom_delta_def Let_def split: if_splits sum.splits)

subsection \<open>The whole cycle\<close>

lemma process_pointers_irrelevant:
  "process M inp (s\<lparr>laser_msg := lm, initial_pose_msg := pm\<rparr>) = process M inp s"
proof -
  have "begin_cycle M inp (s\<lparr>laser_msg := lm, initial_pose_msg := pm\<rparr>) = begin_cycle M inp s"
    by (simp add: begin_cycle_def)
  then show ?thesis by (simp add: process_def)
qed

lemma process_no_laser:
  "received_laser (callbacks inp) = None \<Longrightarrow> process M inp s = (Inr (), begin_cycle M inp s)"
  by (simp add: process_def Let_def)

lemma process_blocks:
  "process M inp s =
    (case received_laser (callbacks inp) of None \<Rightarrow> (Inr (), begin_cycle M inp s)
     | Some scan \<Rightarrow> (case init_laser_offset inp scan (begin_cycle M inp s) of
          None \<Rightarrow> (Inr (), begin_cycle M inp s)
        | Some s1 \<Rightarrow> (case odom_delta M inp scan s1 of None \<Rightarrow> (Inr (), s1)
           | Some (s2, odom, mv) \<Rightarrow> update M inp scan odom mv s2)))"
  by (simp add: process_def Let_def)

lemma process_checks_passed:
  "checks_passed M inp s = Some (scan, s2, odom, mv) \<Longrightarrow>
     process M inp s = update M inp scan odom mv s2"
  by (auto simp: process_blocks checks_passed_def split: option.splits)

lemma checks_passed_fields:
  assumes "checks_passed M inp s = Some (scan, s2, odom, mv)"
  shows "particle_filter s2 = particle_filter (begin_cycle M inp s)"
    "num_particles s2 = num_particles s"
    "map_frame_id s2 = map_frame_id s" "odom_frame_id s2 = odom_frame_id s"
    "base_link_frame_id s2 = base_link_frame_id s"
    "laser_offset_initialized s2" "have_previous_pose s2"
    "filter is_stage (trace s2) = filter is_stage (trace s)"
    "filter is_estimate (trace s2) = filter is_estimate (trace s)"
    "filter is_seed (trace s2) = filter is_seed (trace (begin_cycle M inp s))"
  using assms
  by (auto simp: checks_passed_def init_laser_offset_fields odom_delta_Some begin_cycle_trace
      split: option.splits)

lemma update_fields [simp]:
  "laser_msg (snd (update M inp scan odom mv s)) = laser_msg s"
  "initial_pose_msg (snd (update M inp scan odom mv s)) = initial_pose_msg s"
  "have_previous_pose (snd (update M inp scan odom mv s)) = have_previous_pose s"
  "previous_pose (snd (update M inp scan odom mv s)) = previous_pose s"
  "laser_offset_initialized (snd (update M inp scan odom mv s)) = laser_offset_initialized s"
  "laser_offset (snd (update M inp scan odom mv s)) = laser_offset s"
  "num_particles (snd (update M inp scan odom mv s)) = num_particles s"
  "map_frame_id (snd (update M inp scan odom mv s)) = map_frame_id s"
  "odom_frame_id (snd (update M inp scan odom mv s)) = odom_frame_id s"
  "base_link_frame_id (snd (update M inp scan odom mv s)) = base_link_frame_id s"
  "filter is_seed (trace (snd (update M inp scan odom mv s))) = filter is_seed (trace s)"
  "filter is_calibration (trace (snd (update M inp scan odom mv s))) = filter is_calibration (trace s)"
  by (simp_all add: update_def Let_def split: sum.splits)

lemma update_empty:
  "particle_filter s = [] \<Longrightarrow> update M inp scan odom mv s = (Inr (), s)"
  by (simp add: update_def)

lemma process_trace_seed:
  "filter is_seed (trace (snd (process M inp s))) = filter is_seed (trace (begin_cycle M inp s))"
  by (auto simp: process_blocks init_laser_offset_fields odom_delta_Some
      split: option.splits)

lemma process_returns_early:
  assumes "checks_passed M inp s = None"
  shows "fst (process M inp s) = Inr ()"
    "particle_filter (snd (process M inp s)) = particle_filter (begin_cycle M inp s)"
    "filter is_stage (trace (snd (process M inp s))) = filter is_stage (trace s)"
    "filter is_estimate (trace (snd (process M inp s))) = filter is_estimate (trace s)"
  using assms
  by (auto simp: process_blocks checks_passed_def init_laser_offset_fields begin_cycle_trace
      split: option.splits)

lemma update_trace:
  "\<exists>rest. trace (snd (update M inp scan odom mv s)) = trace s @ rest \<and>
          filter is_seed rest = [] \<and> filter is_calibration rest = []"
  by (simp add: update_def Let_def split: sum.splits)

lemma init_laser_offset_trace:
  assumes "init_laser_offset inp scan s = Some s1"
  shows "\<exists>rest. trace s1 = trace s @ rest \<and> filter is_seed rest = []"
  using init_laser_offset_Some [OF assms] by auto

lemma process_trace_extends:
  "\<exists>rest. trace (snd (process M inp s)) = trace (begin_cycle M inp s) @ rest \<and>
          filter is_seed rest = []"
proof (cases "checks_passed M inp s")
  case None
  then show ?thesis
    by (auto simp: process_blocks checks_passed_def split: option.splits
        dest: init_laser_offset_trace)
next
  case (Some r)
  obtain scan s2 odom mv where r: "r = (scan, s2, odom, mv)" by (cases r) auto
  from Some r obtain s1 where
    s1: "init_laser_offset inp scan (begin_cycle M inp s) = Some s1" and
    s2: "odom_delta M inp scan s1 = Some (s2, odom, mv)"
    by (auto simp: checks_passed_def split: option.splits)
  from init_laser_offset_trace [OF s1] obtain r1 where
    r1: "trace s1 = trace (begin_cycle M inp s) @ r1" "filter is_seed r1 = []" by blast
  from update_trace [of M inp scan odom mv s2] obtain r2 where
    r2: "trace (snd (update M inp scan odom mv s2)) = trace s2 @ r2" "filter is_seed r2 = []"
    by blast
  have "trace s2 = trace s1" using odom_delta_Some(10) [OF s2] .
  with r1 r2 have "trace (snd (update M inp scan odom mv s2)) =
      trace (begin_cycle M inp s) @ (r1 @ r2) \<and> filter is_seed (r1 @ r2) = []"
    by simp
  then show ?thesis
    using process_checks_passed [of M inp s scan s2 odom mv] Some r by metis
qed

lemma process_prior_set_irrelevant:
  assumes "received_initial_pose (callbacks inp) = Some msg"
  shows "process M inp (s\<lparr>particle_filter := prior\<rparr>) = process M inp s"
proof -
  have "begin_cycle M inp (s\<lparr>particle_filter := prior\<rparr>) = begin_cycle M inp s"
    using assms by (simp add: begin_cycle_eq)
  then show ?thesis by (simp add: process_def)
qed

lemma seeded_explicit:
  assumes "position msg = (x, y, z)" and "getYaw M (orientation msg) = yaw"
  shows "seeded M msg =
           initUniform M
             (double_minus x (double_round 0.3), double_minus y (double_round 0.3))
             (double_plus x (double_round 0.3), double_plus y (double_round 0.3))
             (double_round 0.05)
             (double_minus yaw (double_round 0.1)) (double_plus yaw (double_round 0.1))
             (double_round 0.05)"
    and "seed_event M msg =
           EvInitUniform
             (double_minus x (double_round 0.3), double_minus y (double_round 0.3))
             (double_plus x (double_round 0.3), double_plus y (double_round 0.3))
             (double_round 0.05)
             (double_minus yaw (double_round 0.1)) (double_plus yaw (double_round 0.1))
             (double_round 0.05)"
  using assms by (simp_all add: seeded_def seed_event_def Let_def)

subsection \<open>Odometry and calibration over the cycles\<close>

lemma init_laser_offset_begin_cycle:
  "init_laser_offset inp scan (begin_cycle M inp s) =
     (case init_laser_offset inp scan s of
        None \<Rightarrow> None
      | Some s1 \<Rightarrow>
          Some (s1\<lparr>laser_msg := received_laser (callbacks inp),
                   initial_pose_msg := received_initial_pose (callbacks inp),
                   particle_filter := particle_filter (begin_cycle M inp s),
                   trace := trace (begin_cycle M inp s) @ drop (length (trace s)) (trace s1)\<rparr>))"
  by (simp add: init_laser_offset_def begin_cycle_eq Let_def split: option.splits sum.splits)

lemma process_fields [simp]:
  "num_particles (snd (process M inp s)) = num_particles s"
  "map_frame_id (snd (process M inp s)) = map_frame_id s"
  "odom_frame_id (snd (process M inp s)) = odom_frame_id s"
  "base_link_frame_id (snd (process M inp s)) = base_link_frame_id s"
  by (auto simp: process_blocks init_laser_offset_fields odom_delta_Some split: option.splits)

lemma process_odometry_found:
  assumes "odometry_lookup inp s = Some odom_tf"
  shows "\<exists>scan s2. checks_passed M inp s =
           Some (scan, s2, convert M odom_tf,
                 if have_previous_pose s
                 then to_2d (times3 M (inverse3 M (previous_pose s)) (convert M odom_tf))
                 else identity2) \<and>
           previous_pose s2 = convert M odom_tf \<and> have_previous_pose s2"
  using assms
  by (auto simp: odometry_lookup_def checks_passed_def init_laser_offset_begin_cycle
      odom_delta_def Let_def init_laser_offset_fields
      split: option.splits if_splits sum.splits)

lemma process_odometry_found_state:
  assumes "odometry_lookup inp s = Some odom_tf"
  shows "previous_pose (snd (process M inp s)) = convert M odom_tf"
    "have_previous_pose (snd (process M inp s))"
proof -
  from process_odometry_found [OF assms] obtain scan s2 mv where
    cp: "checks_passed M inp s = Some (scan, s2, convert M odom_tf, mv)" and
    f: "previous_pose s2 = convert M odom_tf" "have_previous_pose s2" by blast
  show "previous_pose (snd (process M inp s)) = convert M odom_tf"
    "have_previous_pose (snd (process M inp s))"
    using process_checks_passed [OF cp] f by simp_all
qed

lemma process_odometry_not_found:
  assumes "odometry_lookup inp s = None"
  shows "previous_pose (snd (process M inp s)) = previous_pose s"
    "have_previous_pose (snd (process M inp s)) = have_previous_pose s"
  using assms
  by (auto simp: odometry_lookup_def process_blocks init_laser_offset_begin_cycle
      odom_delta_def Let_def init_laser_offset_fields
      split: option.splits if_splits sum.splits)

lemma process_have_previous_pose:
  "have_previous_pose s \<Longrightarrow> have_previous_pose (snd (process M inp s))"
  by (cases "odometry_lookup inp s")
     (simp_all add: process_odometry_not_found process_odometry_found_state)

lemma run_have_previous_pose:
  "have_previous_pose s \<Longrightarrow> have_previous_pose (run M inps s)"
  by (induction inps arbitrary: s) (simp_all add: process_have_previous_pose)

lemma process_odometry_unavailable:
  assumes "received_laser (callbacks inp) = Some scan"
    and "init_laser_offset inp scan (begin_cycle M inp s) = Some s1"
    and "\<not> wait_odom inp (odom_frame_id s) (base_link_frame_id s) (stamp scan) \<or>
         isl (lookup_odom inp (odom_frame_id s) (base_link_frame_id s) (stamp scan)) \<and>
         \<not> have_previous_pose s"
  shows "process M inp s = (Inr (), s1)"
  using assms init_laser_offset_fields [OF assms(2)]
  by (auto simp: process_blocks odom_delta_def isl_def split: sum.splits)

lemma process_odometry_fallback:
  assumes "received_laser (callbacks inp) = Some scan"
    and "init_laser_offset inp scan (begin_cycle M inp s) = Some s1"
    and "wait_odom inp (odom_frame_id s) (base_link_frame_id s) (stamp scan)"
    and "isl (lookup_odom inp (odom_frame_id s) (base_link_frame_id s) (stamp scan))"
    and "have_previous_pose s"
  shows "process M inp s = update M inp scan (previous_pose s) identity2 s1"
  using assms init_laser_offset_fields [OF assms(2)]
  by (auto simp: process_blocks odom_delta_def isl_def split: sum.splits)

lemma calibration_lookup_frame:
  assumes "base_link_frame_id (t::PluginState) = base_link_frame_id (s::PluginState)"
  shows "calibration_lookup inp t = calibration_lookup inp s"
  unfolding calibration_lookup_def assms ..

lemma process_calibration_unresolved:
  assumes "\<not> laser_offset_initialized s" and "calibration_lookup inp s = None"
  shows "process M inp s = (Inr (), begin_cycle M inp s)"
  using assms
  by (auto simp: process_blocks calibration_lookup_def init_laser_offset_def
      split: option.splits sum.splits if_splits)

lemma process_first_calibration:
  assumes "\<not> laser_offset_initialized s" and "calibration_lookup inp s = Some p_laser"
  shows "laser_offset_initialized (snd (process M inp s))"
    "laser_offset (snd (process M inp s)) = Some (to_2d p_laser, height_of p_laser)"
    "filter is_calibration (trace (snd (process M inp s))) =
       filter is_calibration (trace s) @ [EvSetLaserOffset (to_2d p_laser) (height_of p_laser)]"
  using assms
  by (auto simp: process_blocks calibration_lookup_def init_laser_offset_def Let_def
      begin_cycle_trace odom_delta_Some
      split: option.splits sum.splits if_splits)

lemma process_calibrated:
  assumes "laser_offset_initialized s"
  shows "laser_offset_initialized (snd (process M inp s))"
    "laser_offset (snd (process M inp s)) = laser_offset s"
    "filter is_calibration (trace (snd (process M inp s))) = filter is_calibration (trace s)"
  using assms
  by (auto simp: process_blocks init_laser_offset_def begin_cycle_trace odom_delta_Some
      split: option.splits)

lemma run_append: "run M (xs @ ys) s = run M ys (run M xs s)"
  by (induction xs arbitrary: s) simp_all

lemma run_calibrated:
  assumes "laser_offset_initialized s"
  shows "laser_offset_initialized (run M inps s) \<and>
         laser_offset (run M inps s) = laser_offset s \<and>
         filter is_calibration (trace (run M inps s)) = filter is_calibration (trace s)"
  using assms
proof (induction inps arbitrary: s)
  case Nil
  then show ?case by simp
next
  case (Cons inp inps)
  from Cons.IH [of "snd (process M inp s)"] process_calibrated [OF Cons.prems, of M inp]
  show ?case by simp
qed

lemma fold_begin_cycle_fields:
  "base_link_frame_id (fold (begin_cycle M) inps s) = base_link_frame_id s \<and>
   laser_offset_initialized (fold (begin_cycle M) inps s) = laser_offset_initialized s \<and>
   laser_offset (fold (begin_cycle M) inps s) = laser_offset s \<and>
   filter is_calibration (trace (fold (begin_cycle M) inps s)) = filter is_calibration (trace s) \<and>
   filter is_stage (trace (fold (begin_cycle M) inps s)) = filter is_stage (trace s) \<and>
   filter is_estimate (trace (fold (begin_cycle M) inps s)) = filter is_estimate (trace s)"
  by (induction inps arbitrary: s) (simp_all add: begin_cycle_trace split: option.splits)

lemma run_calibration_unresolved:
  assumes "\<not> laser_offset_initialized s"
    and "\<forall>inp \<in> set early. calibration_lookup inp s = None"
  shows "run M early s = fold (begin_cycle M) early s"
  using assms
proof (induction early arbitrary: s)
  case Nil
  then show ?case by simp
next
  case (Cons inp early)
  have step: "process M inp s = (Inr (), begin_cycle M inp s)"
    using Cons.prems by (simp add: process_calibration_unresolved)
  have "\<forall>i \<in> set early. calibration_lookup i (begin_cycle M inp s) = None"
  proof
    fix i assume "i \<in> set early"
    then have "calibration_lookup i s = None" using Cons.prems(2) by simp
    moreover have "calibration_lookup i (begin_cycle M inp s) = calibration_lookup i s"
      by (rule calibration_lookup_frame) simp
    ultimately show "calibration_lookup i (begin_cycle M inp s) = None" by simp
  qed
  with Cons.IH [of "begin_cycle M inp s"] Cons.prems(1) step show ?case by simp
qed

subsection \<open>Weighted sums and the polar angle\<close>

lemma weighted_sum_finite:
  "map weight sms = map Finite ws \<Longrightarrow>
     weighted_sum f sms = Some (\<Sum>(w, sm)\<leftarrow>zip ws sms. w * f (pose sm))"
proof (induction sms arbitrary: ws)
  case Nil
  then show ?case by simp
next
  case (Cons sm sms)
  then obtain w ws' where ws: "ws = w # ws'" by (cases ws) auto
  with Cons.prems have "weight sm = Finite w" "map weight sms = map Finite ws'" by simp_all
  with Cons.IH [of ws'] ws show ?case by simp
qed

lemma total_weight_finite:
  "map weight sms = map Finite ws \<Longrightarrow> total_weight sms = Some (sum_list ws)"
proof (induction sms arbitrary: ws)
  case Nil
  then show ?case by (simp add: total_weight_def)
next
  case (Cons sm sms)
  then obtain w ws' where ws: "ws = w # ws'" by (cases ws) auto
  with Cons.prems have "weight sm = Finite w" "map weight sms = map Finite ws'" by simp_all
  with Cons.IH [of ws'] ws show ?case by (simp add: total_weight_def)
qed

lemma sqrt_ratio_pos:
  assumes "0 < (x::real)"
  shows "sqrt (1 + (y / x)\<^sup>2) = sqrt (x\<^sup>2 + y\<^sup>2) / x"
proof -
  have "1 + (y / x)\<^sup>2 = (x\<^sup>2 + y\<^sup>2) / x\<^sup>2"
    using assms by (simp add: power_divide add_divide_distrib)
  then have "sqrt (1 + (y / x)\<^sup>2) = sqrt (x\<^sup>2 + y\<^sup>2) / sqrt (x\<^sup>2)"
    by (simp add: real_sqrt_divide)
  then show ?thesis using assms by simp
qed

lemma sqrt_ratio_neg:
  assumes "(x::real) < 0"
  shows "sqrt (1 + (y / x)\<^sup>2) = - (sqrt (x\<^sup>2 + y\<^sup>2) / x)"
proof -
  have "1 + (y / x)\<^sup>2 = (x\<^sup>2 + y\<^sup>2) / x\<^sup>2"
    using assms by (simp add: power_divide add_divide_distrib)
  then have "sqrt (1 + (y / x)\<^sup>2) = sqrt (x\<^sup>2 + y\<^sup>2) / sqrt (x\<^sup>2)"
    by (simp add: real_sqrt_divide)
  then show ?thesis using assms by simp
qed

lemma norm_pos: "(x::real) \<noteq> 0 \<or> y \<noteq> 0 \<Longrightarrow> 0 < sqrt (x\<^sup>2 + y\<^sup>2)"
  by (auto simp: sum_power2_gt_zero_iff)

lemma angle_cos:
  assumes "x \<noteq> 0 \<or> y \<noteq> 0"
  shows "cos (angle x y) = x / sqrt (x\<^sup>2 + y\<^sup>2)"
proof -
  have n: "0 < sqrt (x\<^sup>2 + y\<^sup>2)" using assms by (rule norm_pos)
  consider "0 < x" | "x < 0" | "x = 0" by linarith
  then show ?thesis
  proof cases
    case 1
    then show ?thesis using n by (simp add: angle_def cos_arctan sqrt_ratio_pos)
  next
    case 2
    then show ?thesis using n
      by (simp add: angle_def cos_arctan sqrt_ratio_neg)
  next
    case 3
    then show ?thesis using assms by (auto simp: angle_def)
  qed
qed

lemma angle_sin:
  assumes "x \<noteq> 0 \<or> y \<noteq> 0"
  shows "sin (angle x y) = y / sqrt (x\<^sup>2 + y\<^sup>2)"
proof -
  have n: "0 < sqrt (x\<^sup>2 + y\<^sup>2)" using assms by (rule norm_pos)
  consider "0 < x" | "x < 0" | "x = 0" by linarith
  then show ?thesis
  proof cases
    case 1
    then show ?thesis using n by (simp add: angle_def sin_arctan sqrt_ratio_pos)
  next
    case 2
    then show ?thesis using n
      by (simp add: angle_def sin_arctan sqrt_ratio_neg)
  next
    case 3
    then have "y \<noteq> 0" using assms by simp
    then show ?thesis using 3 by (auto simp: angle_def real_sqrt_abs2 abs_if)
  qed
qed

lemma angle_range: "- pi < angle x y \<and> angle x y \<le> pi"
proof -
  have b: "- (pi / 2) < arctan (y / x)" "arctan (y / x) < pi / 2"
    by (rule arctan_lbound, rule arctan_ubound)
  consider "0 < x" | "x < 0" "0 \<le> y" | "x < 0" "y < 0" | "x = 0" by linarith
  then show ?thesis
  proof cases
    case 1
    then show ?thesis using b pi_gt_zero by (simp add: angle_def)
  next
    case 2
    then have "y / x \<le> 0" by (simp add: divide_nonneg_neg)
    then have "arctan (y / x) \<le> 0" by (simp add: arctan_le_zero_iff)
    then show ?thesis using 2 b by (simp add: angle_def)
  next
    case 3
    then have "0 < y / x" by (simp add: divide_neg_neg)
    then have "0 < arctan (y / x)" by (simp add: zero_less_arctan_iff)
    then show ?thesis using 3 b by (simp add: angle_def)
  next
    case 4
    have "angle x y = pi / 2 \<or> angle x y = - (pi / 2) \<or> angle x y = 0"
      using 4 by (simp add: angle_def)
    then show ?thesis using pi_gt_zero by (elim disjE) (simp_all only:, linarith+)
  qed
qed

lemma cos_near_pi: "cos (179 * pi / 180) < 0"
proof -
  have "179 * pi / 180 = pi - pi / 180" by simp
  then have "cos (179 * pi / 180) = - cos (pi / 180)" by (simp only: cos_pi_minus)
  moreover have "0 < cos (pi / 180)" using pi_gt_zero by (intro cos_gt_zero_pi) simp_all
  ultimately show ?thesis by simp
qed

lemma mean_heading_antipodal:
  assumes "0 < w"
  shows "meanPose [sample_at x1 y1 (179 * pi / 180) w, sample_at x2 y2 (- (179 * pi / 180)) w] =
    Some \<lparr>px = (x1 + x2) / 2, py = (y1 + y2) / 2, theta = pi\<rparr>"
proof -
  let ?c = "cos (179 * pi / 180)"
  have c: "(w * ?c + w * ?c) / (w + w) = ?c" using assms by (simp add: field_simps)
  have a: "angle ?c 0 = pi" using cos_near_pi by (simp add: angle_def)
  have x: "(w * x1 + w * x2) / (w + w) = (x1 + x2) / 2"
    "(w * y1 + w * y2) / (w + w) = (y1 + y2) / 2"
    using assms by (simp_all add: field_simps)
  show ?thesis
    using assms c a x by (simp add: meanPose_def total_weight_def sample_at_def)
qed

section \<open>The claims\<close>

text \<open>
  C10. Each received laser scan and each received initial pose message is consumed by at
  most one cycle. Both stored pointers are cleared at the start of every cycle before
  the queue is drained, so what the previous cycle left in them has no effect on this
  cycle. A cycle in which no laser scan arrived ends after the start of the cycle and
  logs nothing but a seeding, a cycle in which no initial pose arrived seeds nothing
  and leaves the particle set to the later blocks as it was, and a cycle with an empty
  queue changes nothing but the two pointers.
\<close>

theorem messages_consumed_once:
  "process M inp (s\<lparr>laser_msg := lm, initial_pose_msg := pm\<rparr>) = process M inp s \<and>
   (received_laser (callbacks inp) = None \<longrightarrow>
      process M inp s = (Inr (), begin_cycle M inp s) \<and>
      filter (\<lambda>e. \<not> is_seed e) (trace (begin_cycle M inp s)) = filter (\<lambda>e. \<not> is_seed e) (trace s)) \<and>
   (received_initial_pose (callbacks inp) = None \<longrightarrow>
      filter is_seed (trace (snd (process M inp s))) = filter is_seed (trace s) \<and>
      particle_filter (begin_cycle M inp s) = particle_filter s) \<and>
   (callbacks inp = [] \<longrightarrow>
      process M inp s = (Inr (), s\<lparr>laser_msg := None, initial_pose_msg := None\<rparr>))"
  by (simp add: process_pointers_irrelevant process_no_laser process_trace_seed
      begin_cycle_trace begin_cycle_particle_filter begin_cycle_eq split: option.splits)

theorem messages_consumed_once_witness:
  "callbacks (test_input []) = [] \<and>
   received_laser (callbacks (test_input [])) = None \<and>
   received_initial_pose (callbacks (test_input [])) = None \<and>
   process test_collaborators (test_input [])
     (test_state\<lparr>laser_msg := Some test_scan, initial_pose_msg := Some test_pose_msg\<rparr>) =
     (Inr (), test_state) \<and>
   filter is_seed (trace (snd (process test_collaborators (test_input []) test_state))) = []"
proof -
  have cb: "callbacks (test_input []) = []" "received_laser (callbacks (test_input [])) = None"
    "received_initial_pose (callbacks (test_input [])) = None"
    by (simp_all add: test_input_def)
  have st: "test_state\<lparr>laser_msg := None, initial_pose_msg := None\<rparr> = test_state"
    "trace test_state = []"
    by (simp_all add: test_state_def)
  from messages_consumed_once [where M = test_collaborators and inp = "test_input []"
          and s = test_state and lm = "Some test_scan" and pm = "Some test_pose_msg"] cb st
  show ?thesis by (simp add: begin_cycle_eq)
qed

text \<open>
  C9. A pending initial pose is applied at the start of the cycle, before the laser,
  calibration and odometry checks. When an initial pose arrived since the previous
  cycle, its seeding is the first entry the cycle logs and the only seeding of the
  cycle; when the cycle returns before line 215 the particle set it leaves is the
  seeded one, and when there is no laser scan or the calibration cannot be looked up
  the cycle does nothing else.
\<close>

theorem initial_pose_applied_first:
  assumes "received_initial_pose (callbacks inp) = Some msg"
  shows "(\<exists>rest. trace (snd (process M inp s)) = trace s @ seed_event M msg # rest \<and>
            filter is_seed rest = []) \<and>
         (checks_passed M inp s = None \<longrightarrow>
            fst (process M inp s) = Inr () \<and>
            particle_filter (snd (process M inp s)) = seeded M msg \<and>
            filter is_stage (trace (snd (process M inp s))) = filter is_stage (trace s)) \<and>
         (received_laser (callbacks inp) = None \<or>
          \<not> laser_offset_initialized s \<and> calibration_lookup inp s = None \<longrightarrow>
            process M inp s =
              (Inr (), s\<lparr>laser_msg := received_laser (callbacks inp),
                         initial_pose_msg := Some msg,
                         particle_filter := seeded M msg,
                         trace := trace s @ [seed_event M msg]\<rparr>))"
proof -
  have a: "\<exists>rest. trace (snd (process M inp s)) = trace s @ seed_event M msg # rest \<and>
            filter is_seed rest = []"
    using process_trace_extends [of M inp s] assms by (auto simp: begin_cycle_trace)
  have b: "checks_passed M inp s = None \<longrightarrow>
            fst (process M inp s) = Inr () \<and>
            particle_filter (snd (process M inp s)) = seeded M msg \<and>
            filter is_stage (trace (snd (process M inp s))) = filter is_stage (trace s)"
    using assms by (simp add: process_returns_early begin_cycle_particle_filter)
  have c: "received_laser (callbacks inp) = None \<or>
          \<not> laser_offset_initialized s \<and> calibration_lookup inp s = None \<longrightarrow>
            process M inp s =
              (Inr (), s\<lparr>laser_msg := received_laser (callbacks inp),
                         initial_pose_msg := Some msg,
                         particle_filter := seeded M msg,
                         trace := trace s @ [seed_event M msg]\<rparr>)"
    using assms
    by (auto simp: process_blocks begin_cycle_eq calibration_lookup_def init_laser_offset_def
        split: option.splits sum.splits if_splits)
  from a b c show ?thesis by blast
qed

theorem initial_pose_applied_first_witness:
  "received_initial_pose (callbacks (test_input [InitialPoseCallback test_pose_msg])) = Some test_pose_msg \<and>
   received_laser (callbacks (test_input [InitialPoseCallback test_pose_msg])) = None \<and>
   checks_passed test_collaborators (test_input [InitialPoseCallback test_pose_msg]) test_state = None \<and>
   process test_collaborators (test_input [InitialPoseCallback test_pose_msg]) test_state =
     (Inr (), test_state\<lparr>initial_pose_msg := Some test_pose_msg,
                 particle_filter :=
                   [sample_at (double_minus 1 (double_round 0.3)) (double_minus 2 (double_round 0.3))
            (double_minus 0 (double_round 0.1)) 1,
          sample_at (double_plus 1 (double_round 0.3)) (double_plus 2 (double_round 0.3))
            (double_plus 0 (double_round 0.1)) 1],
                 trace :=
                   [EvInitUniform
                      (double_minus 1 (double_round 0.3), double_minus 2 (double_round 0.3))
                      (double_plus 1 (double_round 0.3), double_plus 2 (double_round 0.3))
                      (double_round 0.05)
                      (double_minus 0 (double_round 0.1)) (double_plus 0 (double_round 0.1))
                      (double_round 0.05)]\<rparr>)"
  using initial_pose_applied_first [where inp = "test_input [InitialPoseCallback test_pose_msg]"
          and msg = test_pose_msg and M = test_collaborators and s = test_state]
  by (simp add: test_input_def test_state_def test_collaborators_def test_pose_msg_def
        seeded_def seed_event_def checks_passed_def Let_def)

text \<open>
  C5, as the code has it. A pose reset seeds the whole particle set anew around the
  supplied pose. For an initial pose message with position \<open>(x, y)\<close> and yaw \<open>yaw\<close> that
  is the last one among the drained callbacks, the cycle calls \<open>initUniform\<close> once, first
  of all, with the corners \<open>(x, y) - (0.3, 0.3)\<close> and \<open>(x, y) + (0.3, 0.3)\<close>, the heading
  bounds \<open>yaw - 0.1\<close> and \<open>yaw + 0.1\<close> and the steps 0.05, all computed in doubles; the
  prior particle set has no influence on the outcome of the cycle; and the seeded set
  is the set the rest of the cycle works on, whether the cycle returns early or reaches
  the update. Each corner coordinate and heading bound is within
  \<open>(\<bar>v\<bar> + 1) / 2 ^ 53\<close> of the exact value, \<open>v\<close> being the coordinate or the yaw.
\<close>

theorem pose_reset_seeds_around_pose:
  assumes "callbacks inp = before @ InitialPoseCallback msg # after"
    and "\<forall>c \<in> set after. \<not> is_initial_pose c"
    and "position msg = (x, y, z)"
    and "getYaw M (orientation msg) = yaw"
    and "lo = (double_minus x (double_round 0.3), double_minus y (double_round 0.3))"
    and "hi = (double_plus x (double_round 0.3), double_plus y (double_round 0.3))"
    and "a_min = double_minus yaw (double_round 0.1)"
    and "a_max = double_plus yaw (double_round 0.1)"
    and "region = initUniform M lo hi (double_round 0.05) a_min a_max (double_round 0.05)"
  shows "(\<exists>rest. trace (snd (process M inp s)) =
            trace s @ EvInitUniform lo hi (double_round 0.05) a_min a_max (double_round 0.05) # rest \<and>
            filter is_seed rest = []) \<and>
         process M inp (s\<lparr>particle_filter := prior\<rparr>) = process M inp s \<and>
         particle_filter (begin_cycle M inp s) = region \<and>
         (checks_passed M inp s = None \<longrightarrow> particle_filter (snd (process M inp s)) = region) \<and>
         (checks_passed M inp s = Some (scan, s2, odom_to_base_link, movement) \<longrightarrow>
            particle_filter s2 = region \<and>
            process M inp s = update M inp scan odom_to_base_link movement s2) \<and>
         \<bar>fst lo - (x - 0.3)\<bar> \<le> (\<bar>x\<bar> + 1) / 2 ^ 53 \<and>
         \<bar>fst hi - (x + 0.3)\<bar> \<le> (\<bar>x\<bar> + 1) / 2 ^ 53 \<and>
         \<bar>snd lo - (y - 0.3)\<bar> \<le> (\<bar>y\<bar> + 1) / 2 ^ 53 \<and>
         \<bar>snd hi - (y + 0.3)\<bar> \<le> (\<bar>y\<bar> + 1) / 2 ^ 53 \<and>
         \<bar>a_min - (yaw - 0.1)\<bar> \<le> (\<bar>yaw\<bar> + 1) / 2 ^ 53 \<and>
         \<bar>a_max - (yaw + 0.1)\<bar> \<le> (\<bar>yaw\<bar> + 1) / 2 ^ 53"
proof -
  have last: "received_initial_pose (callbacks inp) = Some msg"
    using assms(1,2) by (simp add: received_initial_pose_last)
  have reg: "seeded M msg = region"
    using seeded_explicit(1) [OF assms(3,4)] assms(5-9) by simp
  have ev: "seed_event M msg =
      EvInitUniform lo hi (double_round 0.05) a_min a_max (double_round 0.05)"
    using seeded_explicit(2) [OF assms(3,4)] assms(5-8) by simp
  have a: "\<exists>rest. trace (snd (process M inp s)) =
            trace s @ EvInitUniform lo hi (double_round 0.05) a_min a_max (double_round 0.05) # rest \<and>
            filter is_seed rest = []"
    using process_trace_extends [of M inp s] last ev
    by (auto simp: begin_cycle_trace)
  have b: "process M inp (s\<lparr>particle_filter := prior\<rparr>) = process M inp s"
    using last by (rule process_prior_set_irrelevant)
  have c: "particle_filter (begin_cycle M inp s) = region"
    using last reg by (simp add: begin_cycle_particle_filter)
  have d: "checks_passed M inp s = None \<longrightarrow> particle_filter (snd (process M inp s)) = region"
    using c by (simp add: process_returns_early)
  have e: "checks_passed M inp s = Some (scan, s2, odom_to_base_link, movement) \<longrightarrow>
            particle_filter s2 = region \<and>
            process M inp s = update M inp scan odom_to_base_link movement s2"
    using c by (simp add: checks_passed_fields process_checks_passed)
  have c3: "(0::real) \<le> 0.3" "(0.3::real) \<le> 3 / 10" and c1: "(0::real) \<le> 0.1" "(0.1::real) \<le> 3 / 10"
    by simp_all
  have f: "\<bar>fst lo - (x - 0.3)\<bar> \<le> (\<bar>x\<bar> + 1) / 2 ^ 53"
    "\<bar>fst hi - (x + 0.3)\<bar> \<le> (\<bar>x\<bar> + 1) / 2 ^ 53"
    "\<bar>snd lo - (y - 0.3)\<bar> \<le> (\<bar>y\<bar> + 1) / 2 ^ 53"
    "\<bar>snd hi - (y + 0.3)\<bar> \<le> (\<bar>y\<bar> + 1) / 2 ^ 53"
    unfolding assms(5,6) fst_conv snd_conv
    by (rule double_corner_error [OF c3])+
  have g: "\<bar>a_min - (yaw - 0.1)\<bar> \<le> (\<bar>yaw\<bar> + 1) / 2 ^ 53"
    "\<bar>a_max - (yaw + 0.1)\<bar> \<le> (\<bar>yaw\<bar> + 1) / 2 ^ 53"
    unfolding assms(7,8)
    by (rule double_corner_error [OF c1])+
  from a b c d e f g show ?thesis by blast
qed

theorem pose_reset_seeds_around_pose_witness:
  "callbacks (test_input [InitialPoseCallback older_pose_msg, InitialPoseCallback test_pose_msg,
                          LaserCallback test_scan]) =
     [InitialPoseCallback older_pose_msg] @ InitialPoseCallback test_pose_msg # [LaserCallback test_scan] \<and>
   \<not> is_initial_pose (LaserCallback test_scan) \<and>
   position test_pose_msg = (1, 2, 0) \<and>
   getYaw test_collaborators (orientation test_pose_msg) = 0 \<and>
   checks_passed test_collaborators (test_input [InitialPoseCallback test_pose_msg]) tracking_state = None \<and>
   particle_filter (begin_cycle test_collaborators
      (test_input [InitialPoseCallback older_pose_msg, InitialPoseCallback test_pose_msg,
                   LaserCallback test_scan]) tracking_state) =
     [sample_at (double_minus 1 (double_round 0.3)) (double_minus 2 (double_round 0.3))
        (double_minus 0 (double_round 0.1)) 1,
      sample_at (double_plus 1 (double_round 0.3)) (double_plus 2 (double_round 0.3))
        (double_plus 0 (double_round 0.1)) 1] \<and>
   particle_filter (snd (process test_collaborators (test_input [InitialPoseCallback test_pose_msg])
      tracking_state)) =
     [sample_at (double_minus 1 (double_round 0.3)) (double_minus 2 (double_round 0.3))
        (double_minus 0 (double_round 0.1)) 1,
      sample_at (double_plus 1 (double_round 0.3)) (double_plus 2 (double_round 0.3))
        (double_plus 0 (double_round 0.1)) 1] \<and>
   \<bar>double_minus 1 (double_round 0.3) - 7 / 10\<bar> \<le> 2 / 2 ^ 53"
proof -
  let ?M = test_collaborators
  let ?A = "test_input [InitialPoseCallback older_pose_msg, InitialPoseCallback test_pose_msg,
                        LaserCallback test_scan]"
  let ?B = "test_input [InitialPoseCallback test_pose_msg]"
  let ?lo = "(double_minus 1 (double_round 0.3), double_minus 2 (double_round 0.3))"
  let ?hi = "(double_plus 1 (double_round 0.3), double_plus 2 (double_round 0.3))"
  let ?a_min = "double_minus 0 (double_round 0.1)"
  let ?a_max = "double_plus 0 (double_round 0.1)"
  let ?set = "[sample_at (double_minus 1 (double_round 0.3)) (double_minus 2 (double_round 0.3))
        (double_minus 0 (double_round 0.1)) 1,
      sample_at (double_plus 1 (double_round 0.3)) (double_plus 2 (double_round 0.3))
        (double_plus 0 (double_round 0.1)) 1]"
  have a1: "callbacks ?A =
     [InitialPoseCallback older_pose_msg] @ InitialPoseCallback test_pose_msg # [LaserCallback test_scan]"
    by (simp add: test_input_def)
  have b1: "callbacks ?B = [] @ InitialPoseCallback test_pose_msg # []"
    by (simp add: test_input_def)
  have a2: "\<forall>c \<in> set [LaserCallback test_scan]. \<not> is_initial_pose c" by simp
  have b2: "\<forall>c \<in> set []. \<not> is_initial_pose c" by simp
  have p: "position test_pose_msg = (1, 2, 0)" by (simp add: test_pose_msg_def)
  have y: "getYaw ?M (orientation test_pose_msg) = 0" by (simp add: test_collaborators_def)
  have r: "?set = initUniform ?M ?lo ?hi (double_round 0.05) ?a_min ?a_max (double_round 0.05)"
    by (simp add: test_collaborators_def)
  have n: "checks_passed ?M ?B tracking_state = None"
    by (simp add: checks_passed_def test_input_def)
  note A = pose_reset_seeds_around_pose [OF a1 a2 p y refl refl refl refl r, where s = tracking_state]
  note B = pose_reset_seeds_around_pose [OF b1 b2 p y refl refl refl refl r, where s = tracking_state]
  have 1: "particle_filter (begin_cycle ?M ?A tracking_state) = ?set"
    using A by blast
  have 2: "particle_filter (snd (process ?M ?B tracking_state)) = ?set"
    using B n by blast
  have 3: "\<bar>double_minus 1 (double_round 0.3) - 7 / 10\<bar> \<le> 2 / 2 ^ 53"
    using A by simp
  from 1 2 3 a1 p y n show ?thesis by simp
qed

text \<open>
  C5 as stated fails for a pose far from the origin. At \<open>x = 10 ^ 16\<close> the unit in the
  last place of a double is 2, so both \<open>x - 0.3\<close> and \<open>x + 0.3\<close> round to \<open>x\<close>: the region
  that the cycle seeds has the same lower and upper \<open>x\<close> corner and no spread in \<open>x\<close>.
\<close>

theorem pose_reset_seeds_around_pose_counterexample:
  "received_initial_pose (callbacks (test_input [InitialPoseCallback far_pose_msg])) =
     Some far_pose_msg \<and>
   position far_pose_msg = (10 ^ 16, 0, 0) \<and>
   trace (snd (process test_collaborators (test_input [InitialPoseCallback far_pose_msg])
      test_state)) =
     [EvInitUniform
        (10 ^ 16, double_minus 0 (double_round 0.3))
        (10 ^ 16, double_plus 0 (double_round 0.3))
        (double_round 0.05)
        (double_minus 0 (double_round 0.1)) (double_plus 0 (double_round 0.1))
        (double_round 0.05)] \<and>
   double_minus (10 ^ 16) (double_round 0.3) = 10 ^ 16 \<and>
   double_plus (10 ^ 16) (double_round 0.3) = 10 ^ 16 \<and>
   double_minus (10 ^ 16) (double_round 0.3) \<noteq> 10 ^ 16 - 0.3 \<and>
   double_plus (10 ^ 16) (double_round 0.3) \<noteq> 10 ^ 16 + 0.3"
  using double_minus_far double_plus_far
  by (simp add: process_no_laser begin_cycle_eq seed_event_def test_input_def test_state_def
        test_collaborators_def far_pose_msg_def Let_def)

text \<open>
  C6. An update on an empty particle set is a no-op. When the set is empty at the check
  of line 215, that is, after a pending initial pose has been applied, the call returns
  without an error, the set stays empty, and neither a stage (motion, sensor, resample)
  nor a pose estimate (mean pose, transform, particle cloud) is logged; a cycle that
  passed the checks before line 215 returns the state those checks left.
\<close>

theorem empty_set_update_is_noop:
  assumes "particle_filter (begin_cycle M inp s) = []"
  shows "fst (process M inp s) = Inr () \<and>
         particle_filter (snd (process M inp s)) = [] \<and>
         filter is_stage (trace (snd (process M inp s))) = filter is_stage (trace s) \<and>
         filter is_estimate (trace (snd (process M inp s))) = filter is_estimate (trace s) \<and>
         (checks_passed M inp s = Some (scan, s2, odom_to_base_link, movement) \<longrightarrow>
            process M inp s = (Inr (), s2))"
proof (cases "checks_passed M inp s")
  case None
  then show ?thesis using assms by (simp add: process_returns_early)
next
  case (Some r)
  obtain scan' s2' odom' mv' where r: "r = (scan', s2', odom', mv')" by (cases r) auto
  have cp: "checks_passed M inp s = Some (scan', s2', odom', mv')" using Some r by simp
  have empty: "particle_filter s2' = []"
    using checks_passed_fields(1) [OF cp] assms by simp
  have "process M inp s = (Inr (), s2')"
    using process_checks_passed [OF cp] update_empty [OF empty] by simp
  then show ?thesis
    using cp empty checks_passed_fields(8,9) [OF cp] by simp
qed

theorem empty_set_update_is_noop_witness:
  "particle_filter (begin_cycle test_collaborators (test_input [LaserCallback test_scan]) test_state) = [] \<and>
   checks_passed test_collaborators (test_input [LaserCallback test_scan]) test_state =
     Some (test_scan,
           test_state\<lparr>laser_msg := Some test_scan, have_previous_pose := True,
                      previous_pose := test_tf, laser_offset_initialized := True,
                      laser_offset := Some (to_2d test_tf, 5),
                      trace := [EvSetLaserOffset (to_2d test_tf) 5]\<rparr>,
           test_tf, identity2) \<and>
   process test_collaborators (test_input [LaserCallback test_scan]) test_state =
     (Inr (),
      test_state\<lparr>laser_msg := Some test_scan, have_previous_pose := True,
                 previous_pose := test_tf, laser_offset_initialized := True,
                 laser_offset := Some (to_2d test_tf, 5),
                 trace := [EvSetLaserOffset (to_2d test_tf) 5]\<rparr>) \<and>
   filter is_stage (trace (snd (process test_collaborators (test_input [LaserCallback test_scan])
      test_state))) = [] \<and>
   filter is_estimate (trace (snd (process test_collaborators (test_input [LaserCallback test_scan])
      test_state))) = []"
proof -
  let ?M = test_collaborators
  let ?inp = "test_input [LaserCallback test_scan]"
  have e: "particle_filter (begin_cycle ?M ?inp test_state) = []"
    by (simp add: begin_cycle_particle_filter test_input_def test_state_def)
  have cp: "checks_passed ?M ?inp test_state =
     Some (test_scan,
           test_state\<lparr>laser_msg := Some test_scan, have_previous_pose := True,
                      previous_pose := test_tf, laser_offset_initialized := True,
                      laser_offset := Some (to_2d test_tf, 5),
                      trace := [EvSetLaserOffset (to_2d test_tf) 5]\<rparr>,
           test_tf, identity2)"
    by (simp add: checks_passed_def begin_cycle_eq init_laser_offset_def odom_delta_def
          test_input_def test_state_def test_collaborators_def test_tf_def Let_def)
  have t: "trace test_state = []" by (simp add: test_state_def)
  from empty_set_update_is_noop [OF e, where scan = test_scan and odom_to_base_link = test_tf
      and movement = identity2] e cp t
  show ?thesis by simp
qed

text \<open>
  C3, as the code has it. A cycle that reaches the update with a non-empty particle set
  runs the motion update of the whole set, then the sensor update of the moved set,
  then the resampling of the weighted set with the configured \<open>num_particles\<close>, in
  this order, each stage being given the complete result of the stage before it, and
  no stage or estimate ran earlier in the cycle. When the resampling returns, the mean
  pose of the resampled set and the two publications follow, all before the call
  returns. When the resampling fails, the call ends there with the error: the three
  stages are logged and no mean pose is extracted.
\<close>

theorem stages_run_in_fixed_order:
  assumes "checks_passed M inp s = Some (scan, s2, odom_to_base_link, movement)"
    and "particle_filter s2 \<noteq> []"
    and "moved = updatePoses M (random inp) movement 0 (particle_filter s2)"
    and "weighted = updateWeights M (laser_offset s2) (world inp) scan moved"
  shows "process M inp s =
           (case resample M (random inp) (num_particles s) weighted of
              Inl e \<Rightarrow>
                (Inl e,
                 s2\<lparr>particle_filter := weighted,
                    trace := trace s2 @
                      [EvUpdatePoses movement (particle_filter s2),
                       EvUpdateWeights scan moved,
                       EvResample (num_particles s) weighted]\<rparr>)
            | Inr resampled \<Rightarrow>
                (Inr (),
                 s2\<lparr>particle_filter := resampled,
                    trace := trace s2 @
                      [EvUpdatePoses movement (particle_filter s2),
                       EvUpdateWeights scan moved,
                       EvResample (num_particles s) weighted,
                       EvCalculateMeanPose resampled,
                       EvSendTransform
                         \<lparr>frame_id_ = map_frame_id s, child_frame_id_ = odom_frame_id s,
                          stamp_ = stamp scan,
                          transform = times3 M (to_3d (calculateMeanPose M resampled))
                                        (inverse3 M odom_to_base_link)\<rparr>,
                       EvPublishParticles ''/map'' (stamp scan)
                         (map (\<lambda>sm. to_3d (matrix (pose sm))) resampled)]\<rparr>)) \<and>
         particle_filter s2 = particle_filter (begin_cycle M inp s) \<and>
         filter is_stage (trace s2) = filter is_stage (trace s) \<and>
         filter is_estimate (trace s2) = filter is_estimate (trace s)"
  using assms checks_passed_fields [OF assms(1)] process_checks_passed [OF assms(1)]
  by (simp add: update_def Let_def split: sum.splits)

theorem stages_run_in_fixed_order_witness:
  "checks_passed test_collaborators (test_input [LaserCallback test_scan]) tracking_state =
     Some (test_scan, tracking_state\<lparr>laser_msg := Some test_scan\<rparr>, test_tf, identity2) \<and>
   resample test_collaborators (random (test_input [LaserCallback test_scan])) 1
     [sample_at 0 0 0 1] = Inr [sample_at 0 0 0 1] \<and>
   fst (process test_collaborators (test_input [LaserCallback test_scan]) tracking_state) = Inr () \<and>
   trace (snd (process test_collaborators (test_input [LaserCallback test_scan]) tracking_state)) =
     [EvUpdatePoses (identity2) [sample_at 0 0 0 1],
      EvUpdateWeights test_scan [sample_at 0 0 0 1],
      EvResample 1 [sample_at 0 0 0 1],
      EvCalculateMeanPose [sample_at 0 0 0 1],
      EvSendTransform \<lparr>frame_id_ = ''map'', child_frame_id_ = ''odom'', stamp_ = 7,
                        transform = (((1, 0, 0), (0, 1, 0), (0, 0, 1)), (- 3, - 4, - 5))\<rparr>,
      EvPublishParticles ''/map'' 7 [to_3d identity2]]"
proof -
  let ?M = test_collaborators
  let ?inp = "test_input [LaserCallback test_scan]"
  let ?s2 = "tracking_state\<lparr>laser_msg := Some test_scan\<rparr>"
  have cp: "checks_passed ?M ?inp tracking_state = Some (test_scan, ?s2, test_tf, identity2)"
    by (simp add: checks_passed_def begin_cycle_eq init_laser_offset_def odom_delta_def
          test_input_def test_state_def tracking_state_def test_collaborators_def test_tf_def
          identity2_def Let_def)
  have ne: "particle_filter ?s2 \<noteq> []" by (simp add: tracking_state_def)
  have mv: "[sample_at 0 0 0 1] = updatePoses ?M (random ?inp) (identity2) 0 (particle_filter ?s2)"
    by (simp add: test_collaborators_def tracking_state_def)
  have wt: "[sample_at 0 0 0 1] =
      updateWeights ?M (laser_offset ?s2) (world ?inp) test_scan [sample_at 0 0 0 1]"
    by (simp add: test_collaborators_def)
  have rs: "resample ?M (random ?inp) (num_particles tracking_state) [sample_at 0 0 0 1] =
      Inr [sample_at 0 0 0 1]"
    by (simp add: test_collaborators_def test_input_def tracking_state_def test_state_def
          resample_spec_def total_weight_def select_def sample_at_def)
  have f: "num_particles tracking_state = 1" "trace ?s2 = []" "map_frame_id tracking_state = ''map''"
    "odom_frame_id tracking_state = ''odom''" "stamp test_scan = 7"
    "calculateMeanPose ?M [sample_at 0 0 0 1] = identity2"
    "times3 ?M (to_3d identity2) (inverse3 ?M test_tf) =
       (((1, 0, 0), (0, 1, 0), (0, 0, 1)), (- 3, - 4, - 5))"
    "matrix (pose (sample_at 0 0 0 1)) = identity2"
    "particle_filter tracking_state = [sample_at 0 0 0 1]"
    "particle_filter (begin_cycle ?M ?inp tracking_state) = [sample_at 0 0 0 1]"
    by (simp_all add: tracking_state_def test_state_def test_scan_def test_collaborators_def
          test_tf_def matrix_def sample_at_def identity2_def begin_cycle_particle_filter
          test_input_def)
  from stages_run_in_fixed_order [OF cp ne mv wt] cp rs f
  show ?thesis by simp
qed

text \<open>
  C3 as stated fails when the resampling fails. With the resampler of the spec, a cycle
  that reaches the update with one particle of weight zero runs the motion update, the
  sensor update and the resampling, and returns the error of the resampling: no mean
  pose is extracted and nothing is published.
\<close>

theorem stages_run_in_fixed_order_counterexample:
  "checks_passed test_collaborators (test_input [LaserCallback test_scan])
       (tracking_state\<lparr>particle_filter := [sample_at 0 0 0 0]\<rparr>) =
     Some (test_scan,
           tracking_state\<lparr>laser_msg := Some test_scan, particle_filter := [sample_at 0 0 0 0]\<rparr>,
           test_tf, identity2) \<and>
   [sample_at 0 0 0 0] \<noteq> [] \<and>
   fst (process test_collaborators (test_input [LaserCallback test_scan])
       (tracking_state\<lparr>particle_filter := [sample_at 0 0 0 0]\<rparr>)) = Inl DegenerateWeights \<and>
   trace (snd (process test_collaborators (test_input [LaserCallback test_scan])
       (tracking_state\<lparr>particle_filter := [sample_at 0 0 0 0]\<rparr>))) =
     [EvUpdatePoses identity2 [sample_at 0 0 0 0],
      EvUpdateWeights test_scan [sample_at 0 0 0 0],
      EvResample 1 [sample_at 0 0 0 0]] \<and>
   filter is_estimate (trace (snd (process test_collaborators (test_input [LaserCallback test_scan])
       (tracking_state\<lparr>particle_filter := [sample_at 0 0 0 0]\<rparr>)))) = []"
  by (simp add: process_blocks checks_passed_def begin_cycle_eq init_laser_offset_def
        odom_delta_def update_def test_input_def test_state_def tracking_state_def
        test_collaborators_def test_tf_def resample_spec_def total_weight_def sample_at_def
        identity2_def Let_def)

text \<open>
  C2. With the resampler of the spec, a particle set whose total weight after the sensor
  update is zero or non-finite makes the resampling fail with \<open>DegenerateWeights\<close>. The
  error leaves \<open>process\<close> at line 242 and reaches the caller; no mean pose is computed
  and no transform is sent, so the estimates published so far stay the last ones, and
  the set is not seeded anew.
\<close>

theorem degenerate_weights_fail_resampling:
  assumes "resample M = resample_spec"
    and "checks_passed M inp s = Some (scan, s2, odom_to_base_link, movement)"
    and "particle_filter s2 \<noteq> []"
    and "moved = updatePoses M (random inp) movement 0 (particle_filter s2)"
    and "weighted = updateWeights M (laser_offset s2) (world inp) scan moved"
    and "total_weight weighted = None \<or> total_weight weighted = Some 0"
  shows "process M inp s =
           (Inl DegenerateWeights,
            s2\<lparr>particle_filter := weighted,
               trace := trace s2 @
                 [EvUpdatePoses movement (particle_filter s2),
                  EvUpdateWeights scan moved,
                  EvResample (num_particles s) weighted]\<rparr>) \<and>
         filter is_estimate (trace (snd (process M inp s))) = filter is_estimate (trace s) \<and>
         filter is_seed (trace (snd (process M inp s))) =
           filter is_seed (trace (begin_cycle M inp s))"
proof -
  have fail: "resample M (random inp) (num_particles s2) weighted = Inl DegenerateWeights"
    using assms(1,6) by (auto simp: resample_spec_def)
  have p: "process M inp s =
           (Inl DegenerateWeights,
            s2\<lparr>particle_filter := weighted,
               trace := trace s2 @
                 [EvUpdatePoses movement (particle_filter s2),
                  EvUpdateWeights scan moved,
                  EvResample (num_particles s) weighted]\<rparr>)"
    using assms(3,4,5) fail checks_passed_fields(2) [OF assms(2)]
      process_checks_passed [OF assms(2)]
    by (simp add: update_def Let_def)
  show ?thesis
    using p checks_passed_fields(9,10) [OF assms(2)] by simp
qed

theorem degenerate_weights_fail_resampling_witness:
  "resample test_collaborators = resample_spec \<and>
   total_weight [sample_at 0 0 0 0] = Some 0 \<and>
   total_weight [\<lparr>pose = \<lparr>px = 0, py = 0, theta = 0\<rparr>, weight = NonFinite\<rparr>] = None \<and>
   process test_collaborators (test_input [LaserCallback test_scan])
       (tracking_state\<lparr>particle_filter := [sample_at 0 0 0 0]\<rparr>) =
     (Inl DegenerateWeights,
      tracking_state\<lparr>laser_msg := Some test_scan, particle_filter := [sample_at 0 0 0 0],
        trace := [EvUpdatePoses (identity2) [sample_at 0 0 0 0],
                  EvUpdateWeights test_scan [sample_at 0 0 0 0],
                  EvResample 1 [sample_at 0 0 0 0]]\<rparr>) \<and>
   fst (process test_collaborators (test_input [LaserCallback test_scan])
       (tracking_state\<lparr>particle_filter :=
          [\<lparr>pose = \<lparr>px = 0, py = 0, theta = 0\<rparr>, weight = NonFinite\<rparr>]\<rparr>)) = Inl DegenerateWeights"
proof -
  let ?M = test_collaborators
  let ?inp = "test_input [LaserCallback test_scan]"
  let ?zero = "[sample_at 0 0 0 0]"
  let ?nan = "[\<lparr>pose = \<lparr>px = 0, py = 0, theta = 0\<rparr>, weight = NonFinite\<rparr>]"
  let ?sz = "tracking_state\<lparr>particle_filter := ?zero\<rparr>"
  let ?sn = "tracking_state\<lparr>particle_filter := ?nan\<rparr>"
  have r: "resample ?M = resample_spec" by (simp add: test_collaborators_def)
  have cz: "checks_passed ?M ?inp ?sz =
      Some (test_scan, ?sz\<lparr>laser_msg := Some test_scan\<rparr>, test_tf, identity2)"
    by (simp add: checks_passed_def begin_cycle_eq init_laser_offset_def odom_delta_def
          test_input_def test_state_def tracking_state_def test_collaborators_def test_tf_def
          identity2_def Let_def)
  have cn: "checks_passed ?M ?inp ?sn =
      Some (test_scan, ?sn\<lparr>laser_msg := Some test_scan\<rparr>, test_tf, identity2)"
    by (simp add: checks_passed_def begin_cycle_eq init_laser_offset_def odom_delta_def
          test_input_def test_state_def tracking_state_def test_collaborators_def test_tf_def
          identity2_def Let_def)
  have nz: "particle_filter (?sz\<lparr>laser_msg := Some test_scan\<rparr>) \<noteq> []" by simp
  have nn: "particle_filter (?sn\<lparr>laser_msg := Some test_scan\<rparr>) \<noteq> []" by simp
  have mz: "?zero = updatePoses ?M (random ?inp) (identity2) 0
              (particle_filter (?sz\<lparr>laser_msg := Some test_scan\<rparr>))"
    by (simp add: test_collaborators_def)
  have mn: "?nan = updatePoses ?M (random ?inp) (identity2) 0
              (particle_filter (?sn\<lparr>laser_msg := Some test_scan\<rparr>))"
    by (simp add: test_collaborators_def)
  have wz: "?zero = updateWeights ?M (laser_offset (?sz\<lparr>laser_msg := Some test_scan\<rparr>))
              (world ?inp) test_scan ?zero"
    by (simp add: test_collaborators_def)
  have wn: "?nan = updateWeights ?M (laser_offset (?sn\<lparr>laser_msg := Some test_scan\<rparr>))
              (world ?inp) test_scan ?nan"
    by (simp add: test_collaborators_def)
  have tz: "total_weight ?zero = Some 0" by (simp add: total_weight_def sample_at_def)
  have tn: "total_weight ?nan = None" by (simp add: total_weight_def)
  have dz: "total_weight ?zero = None \<or> total_weight ?zero = Some 0" using tz by simp
  have dn: "total_weight ?nan = None \<or> total_weight ?nan = Some 0" using tn by simp
  have f: "num_particles ?sz = 1" "trace ?sz = []"
    by (simp_all add: tracking_state_def test_state_def)
  from degenerate_weights_fail_resampling [OF r cz nz mz wz dz]
    degenerate_weights_fail_resampling [OF r cn nn mn wn dn] r tz tn f
  show ?thesis by simp
qed

text \<open>
  C8. The odometry bookkeeping advances whether or not the filter update runs. In a
  cycle that has a laser scan and whose odometry lookup succeeds, the stored previous
  pose becomes the pose just looked up and the flag becomes true, also when the
  particle set is empty and no stage runs; the flag stays true over all later cycles.
  The movement of the following cycle with a successful lookup is the difference
  between the pose stored here and the new one, and a cycle without a successful
  lookup leaves the stored pose and the flag as they are.
\<close>

theorem odometry_bookkeeping_advances:
  assumes "odometry_lookup inp s = Some odom_tf"
  shows "previous_pose (snd (process M inp s)) = convert M odom_tf \<and>
         have_previous_pose (snd (process M inp s)) \<and>
         have_previous_pose (run M later (snd (process M inp s))) \<and>
         (particle_filter (begin_cycle M inp s) = [] \<longrightarrow>
            fst (process M inp s) = Inr () \<and>
            filter is_stage (trace (snd (process M inp s))) = filter is_stage (trace s) \<and>
            filter is_estimate (trace (snd (process M inp s))) = filter is_estimate (trace s)) \<and>
         (odometry_lookup following (snd (process M inp s)) = Some following_tf \<longrightarrow>
            (\<exists>scan2 s2. checks_passed M following (snd (process M inp s)) =
               Some (scan2, s2, convert M following_tf,
                     to_2d (times3 M (inverse3 M (convert M odom_tf)) (convert M following_tf))))) \<and>
         (odometry_lookup other t = None \<longrightarrow>
            previous_pose (snd (process M other t)) = previous_pose t \<and>
            have_previous_pose (snd (process M other t)) = have_previous_pose t)"
proof -
  let ?s' = "snd (process M inp s)"
  have a: "previous_pose ?s' = convert M odom_tf" "have_previous_pose ?s'"
    using process_odometry_found_state [OF assms] by simp_all
  have b: "have_previous_pose (run M later ?s')"
    using a(2) by (rule run_have_previous_pose)
  have c: "particle_filter (begin_cycle M inp s) = [] \<longrightarrow>
            fst (process M inp s) = Inr () \<and>
            filter is_stage (trace ?s') = filter is_stage (trace s) \<and>
            filter is_estimate (trace ?s') = filter is_estimate (trace s)"
  proof
    assume e: "particle_filter (begin_cycle M inp s) = []"
    from process_odometry_found [OF assms, of M] obtain scan s2 mv where
      cp: "checks_passed M inp s = Some (scan, s2, convert M odom_tf, mv)" by blast
    have "particle_filter s2 = []" using checks_passed_fields(1) [OF cp] e by simp
    then have "process M inp s = (Inr (), s2)"
      using process_checks_passed [OF cp] by (simp add: update_empty)
    then show "fst (process M inp s) = Inr () \<and>
            filter is_stage (trace ?s') = filter is_stage (trace s) \<and>
            filter is_estimate (trace ?s') = filter is_estimate (trace s)"
      using checks_passed_fields(8,9) [OF cp] by simp
  qed
  have d: "odometry_lookup following ?s' = Some following_tf \<longrightarrow>
            (\<exists>scan2 s2. checks_passed M following ?s' =
               Some (scan2, s2, convert M following_tf,
                     to_2d (times3 M (inverse3 M (convert M odom_tf)) (convert M following_tf))))"
  proof
    assume n: "odometry_lookup following ?s' = Some following_tf"
    from process_odometry_found [OF n, of M] a
    show "\<exists>scan2 s2. checks_passed M following ?s' =
               Some (scan2, s2, convert M following_tf,
                     to_2d (times3 M (inverse3 M (convert M odom_tf)) (convert M following_tf)))"
      by auto
  qed
  have e: "odometry_lookup other t = None \<longrightarrow>
            previous_pose (snd (process M other t)) = previous_pose t \<and>
            have_previous_pose (snd (process M other t)) = have_previous_pose t"
    by (simp add: process_odometry_not_found)
  from a b c d e show ?thesis by blast
qed

theorem odometry_bookkeeping_advances_witness:
  "odometry_lookup (test_input [LaserCallback test_scan]) test_state = Some test_tf \<and>
   particle_filter (begin_cycle test_collaborators (test_input [LaserCallback test_scan]) test_state) = [] \<and>
   \<not> have_previous_pose test_state \<and>
   previous_pose (snd (process test_collaborators (test_input [LaserCallback test_scan]) test_state)) = test_tf \<and>
   have_previous_pose (snd (process test_collaborators (test_input [LaserCallback test_scan]) test_state)) \<and>
   filter is_stage (trace (snd (process test_collaborators (test_input [LaserCallback test_scan])
      test_state))) = [] \<and>
   odometry_lookup (test_input_next [LaserCallback test_scan])
     (snd (process test_collaborators (test_input [LaserCallback test_scan]) test_state)) = Some test_tf2 \<and>
   (\<exists>scan2 s2. checks_passed test_collaborators (test_input_next [LaserCallback test_scan])
      (snd (process test_collaborators (test_input [LaserCallback test_scan]) test_state)) =
      Some (scan2, s2, test_tf2, (((1, 0), (0, 1)), (1, 2)))) \<and>
   odometry_lookup (test_input_odom_timeout [LaserCallback test_scan]) tracking_state = None \<and>
   previous_pose (snd (process test_collaborators (test_input_odom_timeout [LaserCallback test_scan])
      tracking_state)) = test_tf"
proof -
  let ?M = test_collaborators
  let ?inp = "test_input [LaserCallback test_scan]"
  let ?next = "test_input_next [LaserCallback test_scan]"
  let ?other = "test_input_odom_timeout [LaserCallback test_scan]"
  let ?s' = "snd (process ?M ?inp test_state)"
  have l: "odometry_lookup ?inp test_state = Some test_tf"
    by (simp add: odometry_lookup_def init_laser_offset_def test_input_def test_state_def Let_def)
  have e: "particle_filter (begin_cycle ?M ?inp test_state) = []"
    by (simp add: begin_cycle_particle_filter test_input_def test_state_def)
  have s': "?s' = test_state\<lparr>laser_msg := Some test_scan, have_previous_pose := True,
                      previous_pose := test_tf, laser_offset_initialized := True,
                      laser_offset := Some (to_2d test_tf, 5),
                      trace := [EvSetLaserOffset (to_2d test_tf) 5]\<rparr>"
    by (simp add: process_blocks begin_cycle_eq init_laser_offset_def odom_delta_def update_def
          test_input_def test_state_def test_collaborators_def test_tf_def Let_def)
  have n: "odometry_lookup ?next ?s' = Some test_tf2"
    unfolding s'
    by (simp add: odometry_lookup_def init_laser_offset_def test_input_next_def test_input_def
          test_state_def Let_def)
  have o: "odometry_lookup ?other tracking_state = None"
    by (simp add: odometry_lookup_def init_laser_offset_def test_input_odom_timeout_def
          test_input_def test_state_def tracking_state_def Let_def)
  have f: "convert ?M test_tf = test_tf" "convert ?M test_tf2 = test_tf2"
    "to_2d (times3 ?M (inverse3 ?M test_tf) test_tf2) = (((1, 0), (0, 1)), (1, 2))"
    "\<not> have_previous_pose test_state" "trace test_state = []"
    "previous_pose tracking_state = test_tf"
    by (simp_all add: test_collaborators_def test_tf_def test_tf2_def test_state_def
          tracking_state_def)
  from odometry_bookkeeping_advances [OF l, where M = ?M and later = "[]" and following = ?next
      and following_tf = test_tf2 and other = ?other and t = tracking_state] l e n o f
  show ?thesis by simp
qed

text \<open>
  C1, as the code has it. When the wait for the odometry transform fails, or the lookup
  throws and no previous odometry pose is stored, the cycle ends there: no stage and
  no estimate is logged, and the particle set is the one the start of the cycle left,
  which is the prior set when no initial pose arrived. When the lookup throws and a
  previous odometry pose is stored, the cycle goes on to the update with that pose
  and the identity movement.
\<close>

theorem odometry_unavailable_skips_cycle:
  assumes "received_laser (callbacks inp) = Some scan"
    and "init_laser_offset inp scan (begin_cycle M inp s) = Some s1"
  shows "(\<not> wait_odom inp (odom_frame_id s) (base_link_frame_id s) (stamp scan) \<or>
          isl (lookup_odom inp (odom_frame_id s) (base_link_frame_id s) (stamp scan)) \<and>
          \<not> have_previous_pose s \<longrightarrow>
            process M inp s = (Inr (), s1) \<and>
            particle_filter s1 = particle_filter (begin_cycle M inp s) \<and>
            filter is_stage (trace s1) = filter is_stage (trace s) \<and>
            filter is_estimate (trace s1) = filter is_estimate (trace s) \<and>
            (received_initial_pose (callbacks inp) = None \<longrightarrow>
               particle_filter s1 = particle_filter s)) \<and>
         (wait_odom inp (odom_frame_id s) (base_link_frame_id s) (stamp scan) \<and>
          isl (lookup_odom inp (odom_frame_id s) (base_link_frame_id s) (stamp scan)) \<and>
          have_previous_pose s \<longrightarrow>
            process M inp s = update M inp scan (previous_pose s) identity2 s1)"
proof -
  have f: "particle_filter s1 = particle_filter (begin_cycle M inp s)"
    "filter is_stage (trace s1) = filter is_stage (trace s)"
    "filter is_estimate (trace s1) = filter is_estimate (trace s)"
    using init_laser_offset_fields [OF assms(2)] by (simp_all add: begin_cycle_trace split: option.splits)
  have g: "received_initial_pose (callbacks inp) = None \<longrightarrow> particle_filter s1 = particle_filter s"
    using f(1) by (simp add: begin_cycle_particle_filter)
  show ?thesis
    using process_odometry_unavailable [OF assms] process_odometry_fallback [OF assms] f g
    by blast
qed

theorem odometry_unavailable_skips_cycle_witness:
  "received_laser (callbacks (test_input_odom_timeout [LaserCallback test_scan])) = Some test_scan \<and>
   init_laser_offset (test_input_odom_timeout [LaserCallback test_scan]) test_scan
     (begin_cycle test_collaborators (test_input_odom_timeout [LaserCallback test_scan]) tracking_state) =
     Some (tracking_state\<lparr>laser_msg := Some test_scan\<rparr>) \<and>
   \<not> wait_odom (test_input_odom_timeout [LaserCallback test_scan])
       (odom_frame_id tracking_state) (base_link_frame_id tracking_state) (stamp test_scan) \<and>
   received_initial_pose (callbacks (test_input_odom_timeout [LaserCallback test_scan])) = None \<and>
   process test_collaborators (test_input_odom_timeout [LaserCallback test_scan]) tracking_state =
     (Inr (), tracking_state\<lparr>laser_msg := Some test_scan\<rparr>) \<and>
   particle_filter (tracking_state\<lparr>laser_msg := Some test_scan\<rparr>) = particle_filter tracking_state \<and>
   wait_odom (test_input_odom_throws [LaserCallback test_scan])
       (odom_frame_id tracking_state) (base_link_frame_id tracking_state) (stamp test_scan) \<and>
   isl (lookup_odom (test_input_odom_throws [LaserCallback test_scan])
       (odom_frame_id tracking_state) (base_link_frame_id tracking_state) (stamp test_scan)) \<and>
   have_previous_pose tracking_state \<and>
   process test_collaborators (test_input_odom_throws [LaserCallback test_scan]) tracking_state =
     update test_collaborators (test_input_odom_throws [LaserCallback test_scan]) test_scan
       test_tf identity2 (tracking_state\<lparr>laser_msg := Some test_scan\<rparr>)"
proof -
  let ?M = test_collaborators
  let ?A = "test_input_odom_timeout [LaserCallback test_scan]"
  let ?B = "test_input_odom_throws [LaserCallback test_scan]"
  let ?s1 = "tracking_state\<lparr>laser_msg := Some test_scan\<rparr>"
  have la: "received_laser (callbacks ?A) = Some test_scan"
    and lb: "received_laser (callbacks ?B) = Some test_scan"
    and ia: "received_initial_pose (callbacks ?A) = None"
    by (simp_all add: test_input_odom_timeout_def test_input_odom_throws_def test_input_def)
  have ca: "init_laser_offset ?A test_scan (begin_cycle ?M ?A tracking_state) = Some ?s1"
    and cb: "init_laser_offset ?B test_scan (begin_cycle ?M ?B tracking_state) = Some ?s1"
    by (simp_all add: init_laser_offset_def begin_cycle_eq test_input_odom_timeout_def
          test_input_odom_throws_def test_input_def tracking_state_def test_state_def)
  have wa: "\<not> wait_odom ?A (odom_frame_id tracking_state) (base_link_frame_id tracking_state)
              (stamp test_scan)"
    and wb: "wait_odom ?B (odom_frame_id tracking_state) (base_link_frame_id tracking_state)
              (stamp test_scan)"
    and tb: "isl (lookup_odom ?B (odom_frame_id tracking_state) (base_link_frame_id tracking_state)
              (stamp test_scan))"
    and hp: "have_previous_pose tracking_state" "previous_pose tracking_state = test_tf"
    by (simp_all add: test_input_odom_timeout_def test_input_odom_throws_def test_input_def
          tracking_state_def)
  from odometry_unavailable_skips_cycle [OF la ca] odometry_unavailable_skips_cycle [OF lb cb]
    la ca wa ia wb tb hp
  show ?thesis by simp
qed

text \<open>
  C1 as stated fails twice. With a previous odometry pose stored, a cycle whose
  odometry lookup throws runs all three stages; and a cycle whose wait for the
  odometry transform fails still applies a pending initial pose, which replaces the
  prior particle set.
\<close>

theorem odometry_unavailable_counterexample:
  "received_laser (callbacks (test_input_odom_throws [LaserCallback test_scan])) = Some test_scan \<and>
   laser_offset_initialized tracking_state \<and>
   isl (lookup_odom (test_input_odom_throws [LaserCallback test_scan])
          (odom_frame_id tracking_state) (base_link_frame_id tracking_state) (stamp test_scan)) \<and>
   filter is_stage (trace tracking_state) = [] \<and>
   filter is_stage (trace (snd (process test_collaborators
       (test_input_odom_throws [LaserCallback test_scan]) tracking_state))) =
     [EvUpdatePoses identity2 [sample_at 0 0 0 1],
      EvUpdateWeights test_scan [sample_at 0 0 0 1],
      EvResample 1 [sample_at 0 0 0 1]] \<and>
   filter is_stage (trace (snd (process test_collaborators
       (test_input_odom_throws [LaserCallback test_scan]) tracking_state))) \<noteq>
     filter is_stage (trace tracking_state) \<and>
   \<not> wait_odom (test_input_odom_timeout [InitialPoseCallback test_pose_msg, LaserCallback test_scan])
          (odom_frame_id tracking_state) (base_link_frame_id tracking_state) (stamp test_scan) \<and>
   particle_filter tracking_state = [sample_at 0 0 0 1] \<and>
   particle_filter (snd (process test_collaborators
       (test_input_odom_timeout [InitialPoseCallback test_pose_msg, LaserCallback test_scan])
       tracking_state)) =
     [sample_at (double_minus 1 (double_round 0.3)) (double_minus 2 (double_round 0.3))
            (double_minus 0 (double_round 0.1)) 1,
          sample_at (double_plus 1 (double_round 0.3)) (double_plus 2 (double_round 0.3))
            (double_plus 0 (double_round 0.1)) 1] \<and>
   particle_filter (snd (process test_collaborators
       (test_input_odom_timeout [InitialPoseCallback test_pose_msg, LaserCallback test_scan])
       tracking_state)) \<noteq> particle_filter tracking_state"
  by (simp add: process_blocks begin_cycle_eq init_laser_offset_def odom_delta_def update_def
        test_input_odom_throws_def test_input_odom_timeout_def test_input_def test_state_def
        tracking_state_def test_collaborators_def test_pose_msg_def seeded_def seed_event_def
        resample_spec_def total_weight_def select_def sample_at_def identity2_def Let_def)

text \<open>
  C4. The laser offset is resolved lazily and once. Starting uncalibrated, every cycle
  before the first one whose calibration lookup succeeds does the start of the cycle
  and nothing else: no calibration, no stage, no estimate, and the flag stays false.
  The first cycle whose lookup succeeds hands the offset and the height of that
  lookup to the laser model, and after any number of later cycles the flag is true,
  the laser model holds that same offset, and \<open>setLaserOffset\<close> has been called
  exactly once.
\<close>

theorem laser_offset_resolved_once:
  assumes "\<not> laser_offset_initialized s"
    and "\<forall>inp \<in> set early. calibration_lookup inp s = None"
    and "calibration_lookup first s = Some p_laser"
  shows "run M early s = fold (begin_cycle M) early s \<and>
         \<not> laser_offset_initialized (run M early s) \<and>
         laser_offset (run M early s) = laser_offset s \<and>
         filter is_calibration (trace (run M early s)) = filter is_calibration (trace s) \<and>
         filter is_stage (trace (run M early s)) = filter is_stage (trace s) \<and>
         filter is_estimate (trace (run M early s)) = filter is_estimate (trace s) \<and>
         laser_offset_initialized (run M (early @ first # later) s) \<and>
         laser_offset (run M (early @ first # later) s) = Some (to_2d p_laser, height_of p_laser) \<and>
         filter is_calibration (trace (run M (early @ first # later) s)) =
           filter is_calibration (trace s) @ [EvSetLaserOffset (to_2d p_laser) (height_of p_laser)]"
proof -
  let ?s1 = "run M early s"
  let ?s2 = "snd (process M first ?s1)"
  have skipped: "?s1 = fold (begin_cycle M) early s"
    using assms(1,2) by (rule run_calibration_unresolved)
  have f: "base_link_frame_id ?s1 = base_link_frame_id s" "\<not> laser_offset_initialized ?s1"
    "laser_offset ?s1 = laser_offset s"
    "filter is_calibration (trace ?s1) = filter is_calibration (trace s)"
    "filter is_stage (trace ?s1) = filter is_stage (trace s)"
    "filter is_estimate (trace ?s1) = filter is_estimate (trace s)"
    using fold_begin_cycle_fields [of M early s] assms(1) unfolding skipped by simp_all
  have "calibration_lookup first ?s1 = Some p_laser"
    using assms(3) calibration_lookup_frame [OF f(1), of first] by simp
  from process_first_calibration [OF f(2) this, of M]
  have g: "laser_offset_initialized ?s2"
    "laser_offset ?s2 = Some (to_2d p_laser, height_of p_laser)"
    "filter is_calibration (trace ?s2) =
       filter is_calibration (trace s) @ [EvSetLaserOffset (to_2d p_laser) (height_of p_laser)]"
    using f(4) by simp_all
  have r: "run M (early @ first # later) s = run M later ?s2"
    by (simp add: run_append)
  from run_calibrated [OF g(1), of M later] g r
  have h: "laser_offset_initialized (run M (early @ first # later) s)"
    "laser_offset (run M (early @ first # later) s) = Some (to_2d p_laser, height_of p_laser)"
    "filter is_calibration (trace (run M (early @ first # later) s)) =
       filter is_calibration (trace s) @ [EvSetLaserOffset (to_2d p_laser) (height_of p_laser)]"
    by simp_all
  from skipped f h show ?thesis by simp
qed

theorem laser_offset_resolved_once_witness:
  "\<not> laser_offset_initialized test_state \<and>
   calibration_lookup (test_input [InitialPoseCallback test_pose_msg]) test_state = None \<and>
   calibration_lookup (test_input_laser_timeout [LaserCallback test_scan]) test_state = None \<and>
   calibration_lookup (test_input [LaserCallback test_scan]) test_state = Some test_tf \<and>
   calibration_lookup (test_input_laser_moved [LaserCallback test_scan]) test_state = Some test_tf2 \<and>
   \<not> laser_offset_initialized (run test_collaborators
       [test_input [InitialPoseCallback test_pose_msg],
        test_input_laser_timeout [LaserCallback test_scan]] test_state) \<and>
   filter is_stage (trace (run test_collaborators
       [test_input [InitialPoseCallback test_pose_msg],
        test_input_laser_timeout [LaserCallback test_scan]] test_state)) = [] \<and>
   laser_offset (run test_collaborators
       ([test_input [InitialPoseCallback test_pose_msg],
         test_input_laser_timeout [LaserCallback test_scan]] @
        test_input [LaserCallback test_scan] #
        [test_input_laser_moved [LaserCallback test_scan]]) test_state) =
     Some ((((1, 0), (0, 1)), (3, 4)), 5) \<and>
   filter is_calibration (trace (run test_collaborators
       ([test_input [InitialPoseCallback test_pose_msg],
         test_input_laser_timeout [LaserCallback test_scan]] @
        test_input [LaserCallback test_scan] #
        [test_input_laser_moved [LaserCallback test_scan]]) test_state)) =
     [EvSetLaserOffset (((1, 0), (0, 1)), (3, 4)) 5]"
proof -
  let ?M = test_collaborators
  let ?e1 = "test_input [InitialPoseCallback test_pose_msg]"
  let ?e2 = "test_input_laser_timeout [LaserCallback test_scan]"
  let ?first = "test_input [LaserCallback test_scan]"
  let ?later = "test_input_laser_moved [LaserCallback test_scan]"
  have n: "\<not> laser_offset_initialized test_state" by (simp add: test_state_def)
  have c: "calibration_lookup ?e1 test_state = None" "calibration_lookup ?e2 test_state = None"
    "calibration_lookup ?first test_state = Some test_tf"
    "calibration_lookup ?later test_state = Some test_tf2"
    by (simp_all add: calibration_lookup_def test_input_def test_input_laser_timeout_def
          test_input_laser_moved_def)
  have e: "\<forall>inp \<in> set [?e1, ?e2]. calibration_lookup inp test_state = None"
    using c by simp
  have f: "trace test_state = []" "to_2d test_tf = (((1, 0), (0, 1)), (3, 4))"
    "height_of test_tf = 5"
    by (simp_all add: test_state_def test_tf_def)
  from laser_offset_resolved_once [OF n e c(3), where M = ?M and later = "[?later]",
      THEN conjunct2] n c f
  show ?thesis by (simp del: run.simps)
qed

text \<open>
  C7. With the mean pose of the spec, the mean of a non-empty particle set with finite
  weights \<open>ws\<close> of non-zero sum \<open>W\<close> is the weighted circular mean: the position is the
  sum of \<open>w * position\<close> divided by \<open>W\<close>, and the heading is the polar angle of the vector
  \<open>(C, S)\<close>, the sums of \<open>w * cos theta\<close> and \<open>w * sin theta\<close> divided by \<open>W\<close>. That angle
  lies in \<open>(-pi, pi]\<close> and, unless \<open>(C, S)\<close> is the zero vector, its cosine and sine are
  \<open>C\<close> and \<open>S\<close> divided by the length of \<open>(C, S)\<close>. Two particles of equal positive weight
  at the headings of 179 and -179 degrees have the mean heading \<open>pi\<close>, which the
  arithmetic mean of the two headings, 0, is not.
\<close>

theorem mean_pose_is_weighted_circular_mean:
  assumes "sms \<noteq> []"
    and "map weight sms = map Finite ws"
    and "W = sum_list ws"
    and "W \<noteq> 0"
    and "X = (\<Sum>(w, sm)\<leftarrow>zip ws sms. w * px (pose sm)) / W"
    and "Y = (\<Sum>(w, sm)\<leftarrow>zip ws sms. w * py (pose sm)) / W"
    and "C = (\<Sum>(w, sm)\<leftarrow>zip ws sms. w * cos (theta (pose sm))) / W"
    and "S = (\<Sum>(w, sm)\<leftarrow>zip ws sms. w * sin (theta (pose sm))) / W"
  shows "meanPose sms = Some \<lparr>px = X, py = Y, theta = angle C S\<rparr> \<and>
         - pi < angle C S \<and> angle C S \<le> pi \<and>
         (C \<noteq> 0 \<or> S \<noteq> 0 \<longrightarrow>
            cos (angle C S) = C / sqrt (C\<^sup>2 + S\<^sup>2) \<and>
            sin (angle C S) = S / sqrt (C\<^sup>2 + S\<^sup>2)) \<and>
         (0 < v \<longrightarrow>
            meanPose [sample_at x1 y1 (179 * pi / 180) v, sample_at x2 y2 (- (179 * pi / 180)) v] =
              Some \<lparr>px = (x1 + x2) / 2, py = (y1 + y2) / 2, theta = pi\<rparr> \<and>
            (179 * pi / 180 + - (179 * pi / 180)) / 2 \<noteq> pi)"
proof -
  have m: "meanPose sms = Some \<lparr>px = X, py = Y, theta = angle C S\<rparr>"
    using assms
    by (simp add: meanPose_def total_weight_finite [OF assms(2)]
          weighted_sum_finite [OF assms(2)])
  have r: "- pi < angle C S \<and> angle C S \<le> pi" by (rule angle_range)
  have cs: "C \<noteq> 0 \<or> S \<noteq> 0 \<longrightarrow>
            cos (angle C S) = C / sqrt (C\<^sup>2 + S\<^sup>2) \<and>
            sin (angle C S) = S / sqrt (C\<^sup>2 + S\<^sup>2)"
    using angle_cos [of C S] angle_sin [of C S] by blast
  have ex: "0 < v \<longrightarrow>
            meanPose [sample_at x1 y1 (179 * pi / 180) v, sample_at x2 y2 (- (179 * pi / 180)) v] =
              Some \<lparr>px = (x1 + x2) / 2, py = (y1 + y2) / 2, theta = pi\<rparr> \<and>
            (179 * pi / 180 + - (179 * pi / 180)) / 2 \<noteq> pi"
    using mean_heading_antipodal [of v x1 y1 x2 y2] pi_gt_zero by simp
  from m r cs ex show ?thesis by blast
qed

theorem mean_pose_is_weighted_circular_mean_witness:
  "[sample_at 1 2 0 3, sample_at 3 4 0 1] \<noteq> [] \<and>
   map weight [sample_at 1 2 0 3, sample_at 3 4 0 1] = map Finite [3, 1] \<and>
   sum_list [3, 1 :: real] \<noteq> 0 \<and>
   meanPose [sample_at 1 2 0 3, sample_at 3 4 0 1] = Some \<lparr>px = 3 / 2, py = 5 / 2, theta = 0\<rparr> \<and>
   cos (angle 1 0) = 1 \<and> sin (angle 1 0) = 0 \<and>
   meanPose [sample_at 0 0 (179 * pi / 180) 1, sample_at 0 0 (- (179 * pi / 180)) 1] =
     Some \<lparr>px = 0, py = 0, theta = pi\<rparr>"
proof -
  let ?sms = "[sample_at 1 2 0 3, sample_at 3 4 0 1]"
  have a: "?sms \<noteq> []" by simp
  have b: "map weight ?sms = map Finite [3, 1]" by (simp add: sample_at_def)
  have w: "(4::real) = sum_list [3, 1]" by simp
  have n: "(4::real) \<noteq> 0" by simp
  have x: "(3 / 2 :: real) = (\<Sum>(w, sm)\<leftarrow>zip [3, 1] ?sms. w * px (pose sm)) / 4"
    by (simp add: sample_at_def)
  have y: "(5 / 2 :: real) = (\<Sum>(w, sm)\<leftarrow>zip [3, 1] ?sms. w * py (pose sm)) / 4"
    by (simp add: sample_at_def)
  have c: "(1 :: real) = (\<Sum>(w, sm)\<leftarrow>zip [3, 1] ?sms. w * cos (theta (pose sm))) / 4"
    by (simp add: sample_at_def)
  have s: "(0 :: real) = (\<Sum>(w, sm)\<leftarrow>zip [3, 1] ?sms. w * sin (theta (pose sm))) / 4"
    by (simp add: sample_at_def)
  have z: "angle 1 0 = 0" by (simp add: angle_def)
  from mean_pose_is_weighted_circular_mean [OF a b w n x y c s, where v = 1 and ?x1.0 = 0
      and ?y1.0 = 0 and ?x2.0 = 0 and ?y2.0 = 0] a b z
  show ?thesis by simp
qed

end
